theory Spec2Isabelle
  imports Main
begin

unbundle bit_operations_syntax

section \<open>Wrapped-API resolution by emulation (unlicense/emulation.py)\<close>

text \<open>
  The module drives an external CPU emulator (Unicorn) over a protector's wrapper stub and
  reports the exported function the stub ends in. The Python functions are embedded as
  state-passing functions over a record \<open>world\<close>: the emulator instance the call owns
  together with the chronological trace of every request the code makes of the engine, of
  the process controller and of the logger. An exception is the left injection of a sum;
  the state at the time of the raise is kept, as the \<open>except\<close> clause of
  \<open>resolve_wrapped_api\<close> reads registers after the failure.
\<close>

subsection \<open>Exceptions\<close>

datatype uc_err =
    UC_ERR_NOMEM | UC_ERR_ARG | UC_ERR_MAP
  | UC_ERR_READ_UNMAPPED | UC_ERR_WRITE_UNMAPPED | UC_ERR_FETCH_UNMAPPED
  | UC_ERR_EXCEPTION

datatype Architecture = X86_32 | X86_64 | Arch_other nat
  \<comment> \<open>\<open>Architecture\<close> is declared in process\_control, which is not part of the sources at
      hand; \<open>Arch_other\<close> stands for every value that is neither of the two the module
      compares against.\<close>

datatype not_implemented =
    Architecture_not_supported Architecture
  | Unsupported_architecture Architecture
  | Platform_not_supported

datatype error =
    UcError uc_err
  | NotImplementedError not_implemented
  | ReadProcessMemoryError
  | ZeroDivisionError
  | StructError
  | KeyError
  | ValueError
  | OtherException

subsection \<open>Engine constants\<close>

datatype uc_arch = UC_ARCH_X86
datatype uc_mode = UC_MODE_32 | UC_MODE_64

datatype uc_reg =
    UC_X86_REG_ESP | UC_X86_REG_EBP | UC_X86_REG_EIP
  | UC_X86_REG_RSP | UC_X86_REG_RBP | UC_X86_REG_RIP
  | UC_X86_REG_MSR | UC_X86_REG_EAX | UC_X86_REG_RAX

datatype uc_hook_type = UC_HOOK_MEM_UNMAPPED | UC_HOOK_BLOCK

definition UC_PROT_READ :: int where "UC_PROT_READ = 1"
definition UC_PROT_WRITE :: int where "UC_PROT_WRITE = 2"
definition UC_PROT_ALL :: int where "UC_PROT_ALL = 7"

definition STACK_MAGIC_RET_ADDR :: int where
  "STACK_MAGIC_RET_ADDR = 0xdeadbeef"

subsection \<open>Logging\<close>

datatype log_level = DEBUG | ERROR

datatype log_arg = Arg_str string | Arg_hex int | Arg_int int | Arg_exc error
  \<comment> \<open>the arguments of a logging call before rendering: \<open>Arg_hex n\<close> is \<open>hex(n)\<close>,
      \<open>Arg_exc e\<close> is \<open>str(e)\<close>\<close>

subsection \<open>The process controller\<close>

record exported_function =
  name :: string

text \<open>
  Modelled from the spec: the class \<open>ProcessController\<close> of process\_control is missing from
  the sources. Section 6 of the specification gives its interface: the architecture, the
  page size and the pointer size of the target, \<open>readProcessMemory(address, length)\<close>, which
  returns bytes or fails, and \<open>enumerateExportedFunctions()\<close>, a mapping from address to
  function metadata with at least a name.
\<close>

record ProcessController =
  architecture :: Architecture
  page_size :: int
  pointer_size :: int
  read_process_memory :: "int \<Rightarrow> int \<Rightarrow> error + nat list"
  enumerate_exported_functions :: "int \<rightharpoonup> exported_function"

subsection \<open>The world: one emulator instance and the trace of requests\<close>

datatype event =
    Ev_uc_open uc_arch uc_mode
  | Ev_mem_map int int int
  | Ev_mem_write int "nat list"
  | Ev_mem_read int int
  | Ev_reg_write uc_reg int
  | Ev_msr_write int int
  | Ev_reg_read uc_reg
  | Ev_hook_add uc_hook_type
  | Ev_emu_start int int
  | Ev_emu_stop
  | Ev_read_process_memory int int
  | Ev_enumerate_exported_functions
  | Ev_log log_level string "log_arg list"

record world =
  mode :: uc_mode
  regs :: "uc_reg \<Rightarrow> int"
  msrs :: "int \<Rightarrow> int"
  regions :: "(int \<times> int \<times> int) list"
  mem :: "int \<Rightarrow> nat"
  stop_request :: bool
  mem_limit :: int
  trace :: "event list"

type_synonym 'a act = "world \<Rightarrow> (error + 'a) \<times> world"

definition ret :: "'a \<Rightarrow> 'a act" where
  "ret x = (\<lambda>w. (Inr x, w))"

definition raise :: "error \<Rightarrow> 'a act" where
  "raise e = (\<lambda>w. (Inl e, w))"

definition lift :: "error + 'a \<Rightarrow> 'a act" where
  "lift r = (\<lambda>w. (r, w))"

definition bindE :: "'a act \<Rightarrow> ('a \<Rightarrow> 'b act) \<Rightarrow> 'b act" where
  "bindE m f = (\<lambda>w. case m w of (Inl e, w') \<Rightarrow> (Inl e, w') | (Inr x, w') \<Rightarrow> f x w')"

definition thenE :: "'a act \<Rightarrow> 'b act \<Rightarrow> 'b act" where
  "thenE m k = bindE m (\<lambda>_. k)"

definition emit :: "event \<Rightarrow> world \<Rightarrow> world" where
  "emit e w = w\<lparr>trace := trace w @ [e]\<rparr>"

definition log :: "log_level \<Rightarrow> string \<Rightarrow> log_arg list \<Rightarrow> unit act" where
  "log lvl msg args = (\<lambda>w. (Inr (), emit (Ev_log lvl msg args) w))"

subsection \<open>The emulation engine, as far as the module calls it\<close>

text \<open>
  The engine is an external library. Its primitives are modelled after the interface the
  module uses: a register file, a list of mapped regions \<open>(address, size, permissions)\<close>
  and byte-addressed memory. A mapping request is rejected when address or size is not a
  multiple of the engine's 4 KiB page, when it lies outside the 64-bit address space, when
  it overlaps a mapped region, or when it would exceed the memory the host grants the
  engine (\<open>mem_limit\<close>). A read or write through the API is rejected when part of the range
  is unmapped. Register access always succeeds, and a register keeps the low 32 or 64 bits
  of what is written to it, whoever writes. A fresh instance has every register zero and
  nothing mapped.
\<close>

definition uc_page :: int where "uc_page = 4096"

definition addr_mapped :: "(int \<times> int \<times> int) list \<Rightarrow> int \<Rightarrow> bool" where
  "addr_mapped rs a = (\<exists>(b, sz, p) \<in> set rs. b \<le> a \<and> a < b + sz)"

definition range_mapped :: "(int \<times> int \<times> int) list \<Rightarrow> int \<Rightarrow> int \<Rightarrow> bool" where
  "range_mapped rs a n = (\<forall>i \<in> {a ..< a + n}. addr_mapped rs i)"

definition overlaps :: "(int \<times> int \<times> int) list \<Rightarrow> int \<Rightarrow> int \<Rightarrow> bool" where
  "overlaps rs a n = (\<exists>(b, sz, p) \<in> set rs. a < b + sz \<and> b < a + n)"

definition mapped_total :: "(int \<times> int \<times> int) list \<Rightarrow> int" where
  "mapped_total rs = sum_list (map (\<lambda>(b, sz, p). sz) rs)"

definition Uc :: "int \<Rightarrow> uc_arch \<Rightarrow> uc_mode \<Rightarrow> world" where
  "Uc limit a m =
     \<lparr> mode = m, regs = (\<lambda>_. 0), msrs = (\<lambda>_. 0), regions = [], mem = (\<lambda>_. 0),
       stop_request = False, mem_limit = limit, trace = [Ev_uc_open a m] \<rparr>"

definition mem_map_error ::
    "int \<Rightarrow> (int \<times> int \<times> int) list \<Rightarrow> int \<Rightarrow> int \<Rightarrow> uc_err option" where
  \<comment> \<open>why the engine rejects a mapping request, if it does\<close>
  "mem_map_error limit rs address len =
     (if len \<le> 0 \<or> address mod uc_page \<noteq> 0 \<or> len mod uc_page \<noteq> 0
         \<or> address < 0 \<or> 2 ^ 64 < address + len
      then Some UC_ERR_ARG
      else if overlaps rs address len then Some UC_ERR_MAP
      else if limit < mapped_total rs + len then Some UC_ERR_NOMEM
      else None)"

definition uc_mem_map :: "int \<Rightarrow> int \<Rightarrow> int \<Rightarrow> unit act" where
  "uc_mem_map address len perms = (\<lambda>w0.
     let w = emit (Ev_mem_map address len perms) w0 in
     case mem_map_error (mem_limit w) (regions w) address len of
       Some c \<Rightarrow> (Inl (UcError c), w)
     | None \<Rightarrow> (Inr (), w\<lparr>regions := regions w @ [(address, len, perms)]\<rparr>))"

definition uc_mem_write :: "int \<Rightarrow> nat list \<Rightarrow> unit act" where
  "uc_mem_write address data = (\<lambda>w0.
     let w = emit (Ev_mem_write address data) w0 in
     if \<not> range_mapped (regions w) address (int (length data))
     then (Inl (UcError UC_ERR_WRITE_UNMAPPED), w)
     else (Inr (), w\<lparr>mem := (\<lambda>x. if address \<le> x \<and> x < address + int (length data)
                                    then data ! nat (x - address) else mem w x)\<rparr>))"

fun read_bytes :: "(int \<Rightarrow> nat) \<Rightarrow> int \<Rightarrow> nat \<Rightarrow> nat list" where
  "read_bytes m a 0 = []"
| "read_bytes m a (Suc n) = m a # read_bytes m (a + 1) n"

definition uc_mem_read :: "int \<Rightarrow> int \<Rightarrow> nat list act" where
  "uc_mem_read address len = (\<lambda>w0.
     let w = emit (Ev_mem_read address len) w0 in
     if len < 0 then (Inl ValueError, w)
     else if \<not> range_mapped (regions w) address len
     then (Inl (UcError UC_ERR_READ_UNMAPPED), w)
     else (Inr (read_bytes (mem w) address (nat len)), w))"

fun reg_bits :: "uc_reg \<Rightarrow> nat" where
  "reg_bits UC_X86_REG_ESP = 32"
| "reg_bits UC_X86_REG_EBP = 32"
| "reg_bits UC_X86_REG_EIP = 32"
| "reg_bits UC_X86_REG_EAX = 32"
| "reg_bits r = 64"

definition reg_store :: "uc_reg \<Rightarrow> int \<Rightarrow> (uc_reg \<Rightarrow> int) \<Rightarrow> (uc_reg \<Rightarrow> int)" where
  \<comment> \<open>the register file after a write: the register keeps the value's low bits\<close>
  "reg_store r v f = f(r := v mod 2 ^ reg_bits r)"

definition regs_in_range :: "(uc_reg \<Rightarrow> int) \<Rightarrow> bool" where
  "regs_in_range f = (\<forall>r. 0 \<le> f r \<and> f r < 2 ^ reg_bits r)"

definition uc_reg_read :: "uc_reg \<Rightarrow> int act" where
  "uc_reg_read r = (\<lambda>w. (Inr (regs w r), emit (Ev_reg_read r) w))"

definition uc_reg_write :: "uc_reg \<Rightarrow> int \<Rightarrow> unit act" where
  "uc_reg_write r v =
     (\<lambda>w. (Inr (), (emit (Ev_reg_write r v) w)\<lparr>regs := reg_store r v (regs w)\<rparr>))"

definition uc_msr_write :: "int \<Rightarrow> int \<Rightarrow> unit act" where
  \<comment> \<open>\<open>uc.reg_write(UC_X86_REG_MSR, (msr, value))\<close>\<close>
  "uc_msr_write m v = (\<lambda>w. (Inr (), (emit (Ev_msr_write m v) w)\<lparr>msrs := (msrs w)(m := v)\<rparr>))"

definition uc_hook_add :: "uc_hook_type \<Rightarrow> unit act" where
  "uc_hook_add h = (\<lambda>w. (Inr (), emit (Ev_hook_add h) w))"

definition uc_emu_stop :: "unit act" where
  "uc_emu_stop = (\<lambda>w. (Inr (), (emit Ev_emu_stop w)\<lparr>stop_request := True\<rparr>))"

subsection \<open>Pointer encoding\<close>

text \<open>
  Modelled from the spec: \<open>pointer_size_to_fmt\<close> lives in dump\_utils, which is missing
  from the sources. The specification speaks of the pointer-sized value at the top of the
  stack for the two profiles, whose pointers are 4 and 8 bytes wide; the format is the
  unsigned little-endian one of that width (\<open><I\<close>, \<open><Q\<close>), and another width is not
  supported. \<open>struct_pack\<close> and \<open>struct_unpack\<close> are Python's \<open>struct\<close> functions at
  these two formats.
\<close>

definition pointer_size_to_fmt :: "int \<Rightarrow> error + string" where
  "pointer_size_to_fmt psize =
     (if psize = 4 then Inr ''<I''
      else if psize = 8 then Inr ''<Q''
      else Inl (NotImplementedError Platform_not_supported))"

definition fmt_width :: "string \<Rightarrow> nat option" where
  "fmt_width fmt = (if fmt = ''<I'' then Some 4 else if fmt = ''<Q'' then Some 8 else None)"

fun le_bytes :: "nat \<Rightarrow> int \<Rightarrow> nat list" where
  "le_bytes 0 v = []"
| "le_bytes (Suc n) v = nat (v mod 256) # le_bytes n (v div 256)"

fun le_int :: "nat list \<Rightarrow> int" where
  "le_int [] = 0"
| "le_int (b # bs) = int b + 256 * le_int bs"

definition struct_pack :: "string \<Rightarrow> int \<Rightarrow> error + nat list" where
  "struct_pack fmt v =
     (case fmt_width fmt of
        None \<Rightarrow> Inl StructError
      | Some n \<Rightarrow> if 0 \<le> v \<and> v < 2 ^ (8 * n) then Inr (le_bytes n v) else Inl StructError)"

definition struct_unpack :: "string \<Rightarrow> nat list \<Rightarrow> error + int" where
  "struct_unpack fmt data =
     (case fmt_width fmt of
        None \<Rightarrow> Inl StructError
      | Some n \<Rightarrow> if length data = n then Inr (le_int data) else Inl StructError)"

definition pack_pointer :: "int \<Rightarrow> int \<Rightarrow> nat list act" where
  \<comment> \<open>\<open>struct.pack(pointer_size_to_fmt(psize), v)\<close>\<close>
  "pack_pointer psize v =
     bindE (lift (pointer_size_to_fmt psize)) (\<lambda>fmt. lift (struct_pack fmt v))"

definition unpack_pointer :: "int \<Rightarrow> nat list \<Rightarrow> int act" where
  \<comment> \<open>\<open>struct.unpack(pointer_size_to_fmt(psize), data)[0]\<close>\<close>
  "unpack_pointer psize data =
     bindE (lift (pointer_size_to_fmt psize)) (\<lambda>fmt. lift (struct_unpack fmt data))"


definition catchE :: "'a act \<Rightarrow> (error \<Rightarrow> 'a act) \<Rightarrow> 'a act" where
  \<comment> \<open>\<open>try: m except ... as e: h e\<close>\<close>
  "catchE m h = (\<lambda>w. case m w of (Inl e, w') \<Rightarrow> h e w' | (Inr x, w') \<Rightarrow> (Inr x, w'))"

definition py_mod :: "int \<Rightarrow> int \<Rightarrow> error + int" where
  "py_mod a b = (if b = 0 then Inl ZeroDivisionError else Inr (a mod b))"

definition pc_read_process_memory :: "ProcessController \<Rightarrow> int \<Rightarrow> int \<Rightarrow> nat list act" where
  "pc_read_process_memory process_controller address len =
     (\<lambda>w. (read_process_memory process_controller address len,
           emit (Ev_read_process_memory address len) w))"

definition pc_enumerate_exported_functions ::
    "ProcessController \<Rightarrow> (int \<rightharpoonup> exported_function) act" where
  "pc_enumerate_exported_functions process_controller =
     (\<lambda>w. (Inr (enumerate_exported_functions process_controller),
           emit Ev_enumerate_exported_functions w))"

subsection \<open>The policy tables\<close>

definition is_no_return_api :: "string \<Rightarrow> bool" where
  "is_no_return_api api_name =
     (let NO_RETURN_APIS = [''ExitProcess'', ''FatalExit'', ''ExitThread'']
      in api_name \<in> set NO_RETURN_APIS)"

definition is_bogus_api :: "string \<Rightarrow> bool" where
  "is_bogus_api api_name = (let BOGUS_APIS = [''Sleep''] in api_name \<in> set BOGUS_APIS)"

definition simulate_bogus_api :: "string \<Rightarrow> error + int \<times> int" where
  "simulate_bogus_api api_name =
     (let BOGUS_API_MAP = [''Sleep'' \<mapsto> (0, 1)]
      in case BOGUS_API_MAP api_name of None \<Rightarrow> Inl KeyError | Some r \<Rightarrow> Inr r)"

subsection \<open>Segment setup\<close>

definition setup_teb_x86 :: "ProcessController \<Rightarrow> unit act" where
  "setup_teb_x86 process_info =
     (let MSG_IA32_FS_BASE = 0xC0000100;
          teb_addr = 0xff100000;
          peb_addr = 0xff200000
      in thenE (uc_mem_map teb_addr (page_size process_info) (UC_PROT_READ OR UC_PROT_WRITE))
        (thenE (uc_mem_map peb_addr (page_size process_info) (UC_PROT_READ OR UC_PROT_WRITE))
        (bindE (pack_pointer 4 teb_addr) (\<lambda>teb_bytes.
         thenE (uc_mem_write (teb_addr + 0x18) teb_bytes)
        (bindE (pack_pointer 4 peb_addr) (\<lambda>peb_bytes.
         thenE (uc_mem_write (teb_addr + 0x30) peb_bytes)
        (uc_msr_write MSG_IA32_FS_BASE teb_addr)))))))"

definition setup_teb_x64 :: "ProcessController \<Rightarrow> unit act" where
  "setup_teb_x64 process_info =
     (let MSG_IA32_GS_BASE = 0xC0000101;
          teb_addr = 0xff10000000000000;
          peb_addr = 0xff20000000000000
      in thenE (uc_mem_map teb_addr (page_size process_info) (UC_PROT_READ OR UC_PROT_WRITE))
        (thenE (uc_mem_map peb_addr (page_size process_info) (UC_PROT_READ OR UC_PROT_WRITE))
        (bindE (pack_pointer 8 teb_addr) (\<lambda>teb_bytes.
         thenE (uc_mem_write (teb_addr + 0x30) teb_bytes)
        (bindE (pack_pointer 8 peb_addr) (\<lambda>peb_bytes.
         thenE (uc_mem_write (teb_addr + 0x60) peb_bytes)
        (uc_msr_write MSG_IA32_GS_BASE teb_addr)))))))"

subsection \<open>The demand-paging fault handler\<close>

text \<open>
  \<open>_unicorn_hook_unmapped(uc, _access, address, _size, _value, process_controller)\<close>; the
  three parameters the body never reads are left out.
\<close>

definition unicorn_hook_unmapped :: "ProcessController \<Rightarrow> int \<Rightarrow> bool act" where
  "unicorn_hook_unmapped process_controller address =
     thenE (log DEBUG ''Unmapped memory at %s'' [Arg_hex address])
     (if address = 0 then ret False
      else
        let psize = page_size process_controller;
            aligned_addr = address - (address AND (psize - 1))
        in catchE
             (bindE (pc_read_process_memory process_controller aligned_addr psize)
                (\<lambda>in_process_data.
              thenE (uc_mem_map aligned_addr (int (length in_process_data)) UC_PROT_ALL)
             (thenE (uc_mem_write aligned_addr in_process_data)
             (thenE (log DEBUG ''Mapped %d bytes at %s''
                       [Arg_int (int (length in_process_data)), Arg_hex aligned_addr])
             (ret True)))))
             (\<lambda>e. case e of
                 UcError c \<Rightarrow> thenE (log ERROR ''ERROR: %s'' [Arg_exc e]) (ret False)
               | ReadProcessMemoryError \<Rightarrow> thenE (log DEBUG ''ERROR: %s'' [Arg_exc e]) (ret False)
               | _ \<Rightarrow> thenE (log ERROR ''ERROR: %s'' [Arg_exc e]) (ret False)))"

subsection \<open>The block hook\<close>

text \<open>
  \<open>_unicorn_hook_block(uc, address, _size, user_data)\<close>, without the unused \<open>_size\<close>. The
  message of the first logging call is written without the apostrophes around \<open>%s\<close>.
\<close>

definition bogus_bypass ::
    "Architecture \<Rightarrow> int \<Rightarrow> uc_reg \<Rightarrow> uc_reg \<Rightarrow> uc_reg \<Rightarrow> int \<Rightarrow> int \<Rightarrow> int \<times> int
       \<Rightarrow> unit act" where
  \<comment> \<open>the bypass once \<open>_simulate_bogus_api\<close> has returned \<open>(result, arg_count)\<close>\<close>
  "bogus_bypass arch ptr_size pc_register sp_register result_register sp ret_addr simulated =
     (let (result, arg_count) = simulated
      in thenE (uc_reg_write result_register result)
        (thenE
           (if arch = X86_32
            then uc_reg_write sp_register (sp + ptr_size * (1 + arg_count))
            else if arch = X86_64
            then (let stack_arg_count = max 0 (arg_count - 4)
                  in uc_reg_write sp_register (sp + ptr_size * (1 + stack_arg_count)))
            else ret ())
        (uc_reg_write pc_register ret_addr)))"

definition unicorn_hook_block :: "ProcessController \<times> int \<Rightarrow> int \<Rightarrow> unit act" where
  "unicorn_hook_block user_data address =
     (let (process_controller, stop_on_ret_addr) = user_data;
          ptr_size = pointer_size process_controller;
          arch = architecture process_controller
      in if arch \<noteq> X86_32 \<and> arch \<noteq> X86_64
         then raise (NotImplementedError (Unsupported_architecture arch))
         else
         let pc_register = (if arch = X86_32 then UC_X86_REG_EIP else UC_X86_REG_RIP);
             sp_register = (if arch = X86_32 then UC_X86_REG_ESP else UC_X86_REG_RSP);
             result_register = (if arch = X86_32 then UC_X86_REG_EAX else UC_X86_REG_RAX)
         in bindE (pc_enumerate_exported_functions process_controller) (\<lambda>exports_dict.
            case exports_dict address of
              None \<Rightarrow> ret ()
            | Some entry \<Rightarrow>
               bindE (uc_reg_read sp_register) (\<lambda>sp.
               bindE (uc_mem_read sp ptr_size) (\<lambda>ret_addr_data.
               bindE (unpack_pointer ptr_size ret_addr_data) (\<lambda>ret_addr.
               let api_name = name entry
               in thenE (log DEBUG ''Reached API %s'' [Arg_str api_name])
                 (if ret_addr = stop_on_ret_addr
                     \<or> ret_addr = stop_on_ret_addr + 1
                     \<or> ret_addr = STACK_MAGIC_RET_ADDR
                  then thenE (uc_reg_write result_register address) uc_emu_stop
                  else if is_no_return_api api_name
                  then thenE (log DEBUG ''Reached noreturn API, stopping emulation'' [])
                      (thenE (uc_reg_write result_register address) uc_emu_stop)
                  else if is_bogus_api api_name
                  then thenE (log DEBUG ''Reached bogus API call, skipping'' [])
                      (bindE (lift (simulate_bogus_api api_name))
                         (bogus_bypass arch ptr_size pc_register sp_register result_register
                            sp ret_addr))
                  else ret ()))))))"

subsection \<open>Running the engine\<close>

text \<open>
  \<open>uc.emu_start(begin, until)\<close> belongs to the engine. Its loop is modelled at the
  granularity at which it calls back into the module: the instructions of a basic block are
  a parameter \<open>cpu\<close>, a function of registers, memory and mapped regions that yields the
  block's register and memory writes, or an access to an unmapped address, or another CPU
  fault. The run ends cleanly when the program counter is \<open>until\<close> at a block start or when
  a hook has requested a stop; it ends with the engine's exception when a fault is not
  resolved by the fault hook; an exception raised inside a hook leaves \<open>emu_start\<close>. A hook
  that moves the program counter makes the engine continue at the new address. The loop
  has no bound of its own, so the model takes fuel: \<open>None\<close> is a run that has not ended
  within the fuel.
\<close>

datatype block_result =
    Block_done "(uc_reg \<times> int) list" "(int \<times> nat) list"
  | Block_unmapped uc_err int
  | Block_fault uc_err

type_synonym cpu = "(uc_reg \<Rightarrow> int) \<Rightarrow> (int \<Rightarrow> nat) \<Rightarrow> (int \<times> int \<times> int) list \<Rightarrow> block_result"

definition pc_reg :: "uc_mode \<Rightarrow> uc_reg" where
  "pc_reg m = (case m of UC_MODE_32 \<Rightarrow> UC_X86_REG_EIP | UC_MODE_64 \<Rightarrow> UC_X86_REG_RIP)"

definition apply_block :: "(uc_reg \<times> int) list \<Rightarrow> (int \<times> nat) list \<Rightarrow> world \<Rightarrow> world" where
  "apply_block rw mw w =
     w\<lparr>regs := fold (\<lambda>(r, v). reg_store r v) rw (regs w),
       mem := fold (\<lambda>(a, b) f. f(a := b)) mw (mem w)\<rparr>"

datatype step = Running world bool | Finished "(error + unit) \<times> world"

definition fault_hook_result :: "uc_err \<Rightarrow> bool \<Rightarrow> (error + bool) \<times> world \<Rightarrow> step" where
  "fault_hook_result c resume r =
     (case r of
        (Inr True, w) \<Rightarrow> Running w resume
      | (Inr False, w) \<Rightarrow> Finished (Inl (UcError c), w)
      | (Inl e, w) \<Rightarrow> Finished (Inl e, w))"

definition emu_step ::
    "cpu \<Rightarrow> (int \<Rightarrow> bool act) \<Rightarrow> (int \<Rightarrow> unit act) \<Rightarrow> int \<Rightarrow> bool \<Rightarrow> world \<Rightarrow> step" where
  "emu_step cpu hook_unmapped hook_block until resumed w =
     (let pc = regs w (pc_reg (mode w)) in
      if \<not> resumed \<and> pc = until then Finished (Inr (), w)
      else if \<not> resumed \<and> \<not> addr_mapped (regions w) pc
      then fault_hook_result UC_ERR_FETCH_UNMAPPED False (hook_unmapped pc w)
      else case (if resumed then (Inr (), w) else hook_block pc w) of
             (Inl e, w1) \<Rightarrow> Finished (Inl e, w1)
           | (Inr _, w1) \<Rightarrow>
               if stop_request w1 then Finished (Inr (), w1)
               else if regs w1 (pc_reg (mode w1)) \<noteq> pc then Running w1 False
               else (case cpu (regs w1) (mem w1) (regions w1) of
                       Block_done rw mw \<Rightarrow> Running (apply_block rw mw w1) False
                     | Block_unmapped c a \<Rightarrow> fault_hook_result c True (hook_unmapped a w1)
                     | Block_fault c \<Rightarrow> Finished (Inl (UcError c), w1)))"

fun emu_loop ::
    "nat \<Rightarrow> cpu \<Rightarrow> (int \<Rightarrow> bool act) \<Rightarrow> (int \<Rightarrow> unit act) \<Rightarrow> int \<Rightarrow> bool \<Rightarrow> world
       \<Rightarrow> ((error + unit) \<times> world) option" where
  "emu_loop 0 cpu hook_unmapped hook_block until resumed w = None"
| "emu_loop (Suc n) cpu hook_unmapped hook_block until resumed w =
     (case emu_step cpu hook_unmapped hook_block until resumed w of
        Finished r \<Rightarrow> Some r
      | Running w' resumed' \<Rightarrow> emu_loop n cpu hook_unmapped hook_block until resumed' w')"

definition emu_entry :: "int \<Rightarrow> int \<Rightarrow> world \<Rightarrow> world" where
  \<comment> \<open>the state in which the loop is entered: program counter at \<open>begin\<close>, no stop pending\<close>
  "emu_entry begin until w =
     (emit (Ev_emu_start begin until) w)
       \<lparr>regs := reg_store (pc_reg (mode w)) begin (regs w), stop_request := False\<rparr>"

definition uc_emu_start ::
    "cpu \<Rightarrow> nat \<Rightarrow> (int \<Rightarrow> bool act) \<Rightarrow> (int \<Rightarrow> unit act) \<Rightarrow> int \<Rightarrow> int \<Rightarrow> world
       \<Rightarrow> ((error + unit) \<times> world) option" where
  "uc_emu_start cpu fuel hook_unmapped hook_block begin until w =
     emu_loop fuel cpu hook_unmapped hook_block until False (emu_entry begin until w)"

subsection \<open>The resolution entry point\<close>

text \<open>
  The locals that the architecture test of \<open>resolve_wrapped_api\<close> assigns, as one record.
\<close>

record profile =
  prof_arch :: uc_arch
  prof_mode :: uc_mode
  prof_pc :: uc_reg
  prof_sp :: uc_reg
  prof_bp :: uc_reg
  prof_result :: uc_reg
  prof_stack_addr :: int
  prof_setup_teb :: "ProcessController \<Rightarrow> unit act"

definition profile_x86_32 :: profile where
  "profile_x86_32 =
     \<lparr> prof_arch = UC_ARCH_X86, prof_mode = UC_MODE_32,
       prof_pc = UC_X86_REG_EIP, prof_sp = UC_X86_REG_ESP, prof_bp = UC_X86_REG_EBP,
       prof_result = UC_X86_REG_EAX, prof_stack_addr = 0xff000000,
       prof_setup_teb = setup_teb_x86 \<rparr>"

definition profile_x86_64 :: profile where
  "profile_x86_64 =
     \<lparr> prof_arch = UC_ARCH_X86, prof_mode = UC_MODE_64,
       prof_pc = UC_X86_REG_RIP, prof_sp = UC_X86_REG_RSP, prof_bp = UC_X86_REG_RBP,
       prof_result = UC_X86_REG_RAX, prof_stack_addr = 0xff00000000000000,
       prof_setup_teb = setup_teb_x64 \<rparr>"

definition select_profile :: "Architecture \<Rightarrow> error + profile" where
  "select_profile arch =
     (if arch = X86_32 then Inr profile_x86_32
      else if arch = X86_64 then Inr profile_x86_64
      else Inl (NotImplementedError (Architecture_not_supported arch)))"

definition stop_address :: "int option \<Rightarrow> int" where
  \<comment> \<open>\<open>stop_on_ret_addr\<close>\<close>
  "stop_address expected_ret_addr =
     (case expected_ret_addr of None \<Rightarrow> STACK_MAGIC_RET_ADDR | Some a \<Rightarrow> a)"

definition build_context :: "profile \<Rightarrow> ProcessController \<Rightarrow> unit act" where
  \<comment> \<open>the \<open>try\<close> body up to the installation of the hooks\<close>
  "build_context p process_controller =
     bindE (lift (py_mod STACK_MAGIC_RET_ADDR (page_size process_controller))) (\<lambda>r.
     let aligned_addr = STACK_MAGIC_RET_ADDR - r
     in thenE (uc_mem_map aligned_addr (page_size process_controller) UC_PROT_ALL)
       (let stack_size = 3 * page_size process_controller;
            stack_start = prof_stack_addr p + stack_size - page_size process_controller
        in thenE (uc_mem_map (prof_stack_addr p) stack_size (UC_PROT_READ OR UC_PROT_WRITE))
          (bindE (pack_pointer (pointer_size process_controller) STACK_MAGIC_RET_ADDR)
             (\<lambda>magic_bytes.
           thenE (uc_mem_write stack_start magic_bytes)
          (thenE (uc_reg_write (prof_sp p) stack_start)
          (thenE (uc_reg_write (prof_bp p) stack_start)
          (thenE (prof_setup_teb p process_controller)
          (thenE (uc_hook_add UC_HOOK_MEM_UNMAPPED)
                 (uc_hook_add UC_HOOK_BLOCK)))))))))"

definition resolve_except :: "profile \<Rightarrow> error \<Rightarrow> int option act" where
  \<comment> \<open>\<open>except UcError as e\<close>; any other exception leaves the function\<close>
  "resolve_except p e =
     (case e of
        UcError c \<Rightarrow>
          thenE (log DEBUG ''ERROR: %s'' [Arg_exc e])
         (bindE (uc_reg_read (prof_pc p)) (\<lambda>pc.
          bindE (uc_reg_read (prof_sp p)) (\<lambda>sp.
          bindE (uc_reg_read (prof_bp p)) (\<lambda>bp.
          thenE (log DEBUG ''PC=%s'' [Arg_hex pc])
         (thenE (log DEBUG ''SP=%s'' [Arg_hex sp])
         (thenE (log DEBUG ''BP=%s'' [Arg_hex bp])
         (ret None)))))))
      | _ \<Rightarrow> raise e)"

definition resolve_session ::
    "cpu \<Rightarrow> nat \<Rightarrow> int \<Rightarrow> ProcessController \<Rightarrow> int option \<Rightarrow> profile \<Rightarrow> world
       \<Rightarrow> ((error + int option) \<times> world) option" where
  \<comment> \<open>the \<open>try\<close> statement, run on the fresh instance \<open>uc\<close>\<close>
  "resolve_session cpu fuel wrapper_start_addr process_controller expected_ret_addr p uc =
     (case build_context p process_controller uc of
        (Inl e, w1) \<Rightarrow> Some (resolve_except p e w1)
      | (Inr _, w1) \<Rightarrow>
          (case uc_emu_start cpu fuel
                  (unicorn_hook_unmapped process_controller)
                  (unicorn_hook_block (process_controller, stop_address expected_ret_addr))
                  wrapper_start_addr (wrapper_start_addr + 1024) w1 of
             None \<Rightarrow> None
           | Some (Inl e, w2) \<Rightarrow> Some (resolve_except p e w2)
           | Some (Inr _, w2) \<Rightarrow>
               Some (bindE (uc_reg_read (prof_result p)) (\<lambda>pc. ret (Some pc)) w2)))"

text \<open>
  \<open>resolve_wrapped_api\<close> with the environment made explicit: the CPU semantics of the
  target's code, the memory the host grants the engine, and the fuel of the run. The result
  is the value returned (\<open>Inr None\<close> is Python's \<open>None\<close>) or the exception that leaves the
  function, together with the trace of the call; \<open>None\<close> is a run that did not end within
  the fuel.
\<close>

definition resolve_wrapped_api ::
    "cpu \<Rightarrow> int \<Rightarrow> nat \<Rightarrow> int \<Rightarrow> ProcessController \<Rightarrow> int option
       \<Rightarrow> ((error + int option) \<times> event list) option" where
  "resolve_wrapped_api cpu host_mem fuel wrapper_start_addr process_controller
       expected_ret_addr =
     (case select_profile (architecture process_controller) of
        Inl e \<Rightarrow> Some (Inl e, [])
      | Inr p \<Rightarrow>
          map_option (\<lambda>(r, w). (r, trace w))
            (resolve_session cpu fuel wrapper_start_addr process_controller expected_ret_addr p
               (Uc host_mem (prof_arch p) (prof_mode p))))"

subsection \<open>Runs of the engine that are still going\<close>

text \<open>
  \<open>emu_run k\<close> is the state after \<open>k\<close> steps of the engine's loop none of which ended the
  run; it is how "execution reaches" is said below.
\<close>

fun emu_run ::
    "nat \<Rightarrow> cpu \<Rightarrow> (int \<Rightarrow> bool act) \<Rightarrow> (int \<Rightarrow> unit act) \<Rightarrow> int \<Rightarrow> bool \<Rightarrow> world
       \<Rightarrow> (world \<times> bool) option" where
  "emu_run 0 cpu hook_unmapped hook_block until resumed w = Some (w, resumed)"
| "emu_run (Suc k) cpu hook_unmapped hook_block until resumed w =
     (case emu_step cpu hook_unmapped hook_block until resumed w of
        Finished r \<Rightarrow> None
      | Running w' resumed' \<Rightarrow> emu_run k cpu hook_unmapped hook_block until resumed' w')"

definition built_context :: "profile \<Rightarrow> ProcessController \<Rightarrow> int \<Rightarrow> world" where
  \<comment> \<open>the instance as \<open>build_context\<close> leaves it, from a fresh one\<close>
  "built_context p process_controller host_mem =
     snd (build_context p process_controller (Uc host_mem (prof_arch p) (prof_mode p)))"

definition keeps :: "(uc_mode \<Rightarrow> (uc_reg \<Rightarrow> int) \<Rightarrow> bool) \<Rightarrow> 'a act \<Rightarrow> bool" where
  \<comment> \<open>the action maintains a property of the engine's mode and register file\<close>
  "keeps Q m = (\<forall>w. Q (mode w) (regs w) \<longrightarrow> Q (mode (snd (m w))) (regs (snd (m w))))"

subsection \<open>Sample targets\<close>

text \<open>
  A 32-bit and a 64-bit target with 4 KiB pages, an image at \<open>0x400000\<close> and a system
  library at \<open>0x77e00000\<close> exporting three functions, and a few one-block wrappers at
  \<open>0x401000\<close>.
\<close>

definition demo_exports :: "int \<rightharpoonup> exported_function" where
  "demo_exports =
     [0x77e01000 \<mapsto> \<lparr>name = ''ExitProcess''\<rparr>,
      0x77e02000 \<mapsto> \<lparr>name = ''Sleep''\<rparr>,
      0x77e03000 \<mapsto> \<lparr>name = ''CreateFileA''\<rparr>]"

definition demo_read :: "int \<Rightarrow> int \<Rightarrow> error + nat list" where
  "demo_read address len =
     (if (0x400000 \<le> address \<and> address + len \<le> 0x500000)
         \<or> (0x77e00000 \<le> address \<and> address + len \<le> 0x77f00000)
      then Inr (replicate (nat len) 0x90)
      else Inl ReadProcessMemoryError)"

definition demo32 :: ProcessController where
  "demo32 = \<lparr> architecture = X86_32, page_size = 4096, pointer_size = 4,
               read_process_memory = demo_read,
               enumerate_exported_functions = demo_exports \<rparr>"

definition demo64 :: ProcessController where
  "demo64 = \<lparr> architecture = X86_64, page_size = 4096, pointer_size = 8,
               read_process_memory = demo_read,
               enumerate_exported_functions = demo_exports \<rparr>"

definition demo_odd_pointer :: ProcessController where
  "demo_odd_pointer = demo32\<lparr> pointer_size := 2 \<rparr>"

definition demo_large_pages :: ProcessController where
  \<comment> \<open>the 32-bit target reporting 2 MiB pages\<close>
  "demo_large_pages = demo32\<lparr> page_size := 0x200000 \<rparr>"

definition demo_small_pages :: ProcessController where
  \<comment> \<open>the 32-bit target reporting 1 KiB pages, smaller than the engine's\<close>
  "demo_small_pages = demo32\<lparr> page_size := 0x400 \<rparr>"

definition demo_other :: ProcessController where
  "demo_other = demo32\<lparr> architecture := Arch_other 0 \<rparr>"

definition stack_world :: "uc_mode \<Rightarrow> uc_reg \<Rightarrow> int \<Rightarrow> int \<Rightarrow> nat list \<Rightarrow> world" where
  \<comment> \<open>an instance with a three-page stack at \<open>base\<close>, the stack pointer at \<open>sp\<close> and
      \<open>bytes\<close> stored there\<close>
  "stack_world m spr base sp bytes =
     \<lparr> mode = m, regs = (\<lambda>_. 0)(spr := sp), msrs = (\<lambda>_. 0),
       regions = [(base, 0x3000, 3)],
       mem = (\<lambda>x. if sp \<le> x \<and> x < sp + int (length bytes) then bytes ! nat (x - sp) else 0),
       stop_request = False, mem_limit = 2 ^ 30, trace = [] \<rparr>"

definition cpu_jmp_exit :: cpu where
  \<comment> \<open>\<open>jmp ExitProcess\<close>\<close>
  "cpu_jmp_exit r m rs =
     (if r UC_X86_REG_EIP = 0x401000 then Block_done [(UC_X86_REG_EIP, 0x77e01000)] []
      else Block_fault UC_ERR_EXCEPTION)"

definition cpu_push_exit :: cpu where
  \<comment> \<open>\<open>push 0x1234; jmp ExitProcess\<close>\<close>
  "cpu_push_exit r m rs =
     (if r UC_X86_REG_EIP = 0x401000
      then Block_done [(UC_X86_REG_ESP, r UC_X86_REG_ESP - 4), (UC_X86_REG_EIP, 0x77e01000)]
             [(r UC_X86_REG_ESP - 4, 0x34), (r UC_X86_REG_ESP - 3, 0x12),
              (r UC_X86_REG_ESP - 2, 0), (r UC_X86_REG_ESP - 1, 0)]
      else Block_fault UC_ERR_EXCEPTION)"

definition cpu_push_next :: cpu where
  \<comment> \<open>\<open>push 0xdeadbef0; jmp CreateFileA\<close>\<close>
  "cpu_push_next r m rs =
     (if r UC_X86_REG_EIP = 0x401000
      then Block_done [(UC_X86_REG_ESP, r UC_X86_REG_ESP - 4), (UC_X86_REG_EIP, 0x77e03000)]
             [(r UC_X86_REG_ESP - 4, 0xf0), (r UC_X86_REG_ESP - 3, 0xbe),
              (r UC_X86_REG_ESP - 2, 0xad), (r UC_X86_REG_ESP - 1, 0xde)]
      else Block_fault UC_ERR_EXCEPTION)"

definition cpu_lost_stack :: cpu where
  \<comment> \<open>\<open>mov esp, 0x10; jmp ExitProcess\<close>\<close>
  "cpu_lost_stack r m rs =
     (if r UC_X86_REG_EIP = 0x401000
      then Block_done [(UC_X86_REG_ESP, 0x10), (UC_X86_REG_EIP, 0x77e01000)] []
      else Block_fault UC_ERR_EXCEPTION)"

definition cpu_null_deref :: cpu where
  \<comment> \<open>\<open>mov eax, [0]\<close>\<close>
  "cpu_null_deref r m rs = Block_unmapped UC_ERR_READ_UNMAPPED 0"

definition cpu_run_off :: cpu where
  \<comment> \<open>a jump to the end of the emulated window\<close>
  "cpu_run_off r m rs =
     (if r UC_X86_REG_EIP = 0x401000 then Block_done [(UC_X86_REG_EIP, 0x401400)] []
      else Block_fault UC_ERR_EXCEPTION)"

section \<open>Basic facts\<close>

lemma emit_fields [simp]:
  "regs (emit e w) = regs w" "regions (emit e w) = regions w" "mem (emit e w) = mem w"
  "mode (emit e w) = mode w" "stop_request (emit e w) = stop_request w"
  "mem_limit (emit e w) = mem_limit w" "msrs (emit e w) = msrs w"
  "trace (emit e w) = trace w @ [e]"
  by (simp_all add: emit_def)

lemma profile_cases:
  assumes "select_profile a = Inr p"
  shows "(a = X86_32 \<and> p = profile_x86_32) \<or> (a = X86_64 \<and> p = profile_x86_64)"
  using assms by (auto simp: select_profile_def split: if_splits)

lemma profile_x86_32_fields [simp]:
  "prof_arch profile_x86_32 = UC_ARCH_X86" "prof_mode profile_x86_32 = UC_MODE_32"
  "prof_pc profile_x86_32 = UC_X86_REG_EIP" "prof_sp profile_x86_32 = UC_X86_REG_ESP"
  "prof_bp profile_x86_32 = UC_X86_REG_EBP" "prof_result profile_x86_32 = UC_X86_REG_EAX"
  "prof_stack_addr profile_x86_32 = 0xff000000" "prof_setup_teb profile_x86_32 = setup_teb_x86"
  by (simp_all add: profile_x86_32_def)

lemma profile_x86_64_fields [simp]:
  "prof_arch profile_x86_64 = UC_ARCH_X86" "prof_mode profile_x86_64 = UC_MODE_64"
  "prof_pc profile_x86_64 = UC_X86_REG_RIP" "prof_sp profile_x86_64 = UC_X86_REG_RSP"
  "prof_bp profile_x86_64 = UC_X86_REG_RBP" "prof_result profile_x86_64 = UC_X86_REG_RAX"
  "prof_stack_addr profile_x86_64 = 0xff00000000000000"
  "prof_setup_teb profile_x86_64 = setup_teb_x64"
  by (simp_all add: profile_x86_64_def)

lemma select_profile_simps [simp]:
  "select_profile X86_32 = Inr profile_x86_32"
  "select_profile X86_64 = Inr profile_x86_64"
  "select_profile (Arch_other n) = Inl (NotImplementedError (Architecture_not_supported (Arch_other n)))"
  by (simp_all add: select_profile_def)

lemma demo_fields [simp]:
  "architecture demo32 = X86_32" "page_size demo32 = 4096" "pointer_size demo32 = 4"
  "read_process_memory demo32 = demo_read" "enumerate_exported_functions demo32 = demo_exports"
  "architecture demo64 = X86_64" "page_size demo64 = 4096" "pointer_size demo64 = 8"
  "read_process_memory demo64 = demo_read" "enumerate_exported_functions demo64 = demo_exports"
  "architecture demo_other = Arch_other 0"
  "architecture demo_odd_pointer = X86_32" "page_size demo_odd_pointer = 4096"
  "pointer_size demo_odd_pointer = 2"
  "architecture demo_large_pages = X86_32" "page_size demo_large_pages = 0x200000"
  "pointer_size demo_large_pages = 4" "read_process_memory demo_large_pages = demo_read"
  "enumerate_exported_functions demo_large_pages = demo_exports"
  "architecture demo_small_pages = X86_32" "page_size demo_small_pages = 0x400"
  "pointer_size demo_small_pages = 4" "read_process_memory demo_small_pages = demo_read"
  by (simp_all add: demo32_def demo64_def demo_other_def demo_odd_pointer_def
        demo_large_pages_def demo_small_pages_def)

subsection \<open>Memory and pointer encoding\<close>

lemma read_bytes_eq:
  "(\<And>i. i < length bs \<Longrightarrow> m (a + int i) = bs ! i) \<Longrightarrow> read_bytes m a (length bs) = bs"
proof (induction bs arbitrary: a)
  case Nil
  then show ?case by simp
next
  case (Cons b bs)
  have h0: "m a = b" using Cons.prems[of 0] by simp
  have "read_bytes m (a + 1) (length bs) = bs"
  proof (rule Cons.IH)
    fix i assume "i < length bs"
    then show "m (a + 1 + int i) = bs ! i"
      using Cons.prems[of "Suc i"] by (simp add: algebra_simps)
  qed
  with h0 show ?case by simp
qed

lemma length_le_bytes [simp]: "length (le_bytes n v) = n"
  by (induction n arbitrary: v) simp_all

lemma le_int_le_bytes: "le_int (le_bytes n v) = v mod 2 ^ (8 * n)"
proof (induction n arbitrary: v)
  case 0
  then show ?case by simp
next
  case (Suc n)
  have "v mod (256 * 2 ^ (8 * n)) = 256 * (v div 256 mod 2 ^ (8 * n)) + v mod 256"
    by (rule zmod_zmult2_eq) simp
  moreover have "(2::int) ^ (8 * Suc n) = 256 * 2 ^ (8 * n)"
    by (simp add: power_add)
  ultimately show ?case using Suc.IH[of "v div 256"] by simp
qed

lemma range_mapped_region:
  assumes "(b, sz, p) \<in> set rs" "b \<le> a" "a + n \<le> b + sz"
  shows "range_mapped rs a n"
proof -
  have "addr_mapped rs i" if "i \<in> {a ..< a + n}" for i
    unfolding addr_mapped_def using assms that by (intro bexI[of _ "(b, sz, p)"]) auto
  then show ?thesis unfolding range_mapped_def by blast
qed

lemma range_mapped_first:
  assumes "range_mapped rs a n" "0 < n"
  shows "addr_mapped rs a"
  using assms unfolding range_mapped_def by simp

lemma pointer_roundtrip:
  assumes n: "n = 4 \<or> n = 8" and v: "0 \<le> v" "v < 2 ^ (8 * nat n)"
  shows "unpack_pointer n (le_bytes (nat n) v) w = (Inr v, w)"
  using n v
  by (auto simp: unpack_pointer_def pointer_size_to_fmt_def bindE_def lift_def
        struct_unpack_def fmt_width_def le_int_le_bytes)

lemma stack_world_fields [simp]:
  "mode (stack_world m spr base sp bytes) = m"
  "regs (stack_world m spr base sp bytes) = (\<lambda>_. 0)(spr := sp)"
  "regions (stack_world m spr base sp bytes) = [(base, 0x3000, 3)]"
  "stop_request (stack_world m spr base sp bytes) = False"
  "trace (stack_world m spr base sp bytes) = []"
  by (simp_all add: stack_world_def)

lemma stack_world_top:
  assumes n: "n = 4 \<or> n = 8" and v: "0 \<le> v" "v < 2 ^ (8 * nat n)"
      and b: "base \<le> sp" "sp + n \<le> base + 0x3000"
  shows "fst (bindE (uc_mem_read (regs (stack_world m spr base sp (le_bytes (nat n) v)) spr) n)
                (unpack_pointer n) (stack_world m spr base sp (le_bytes (nat n) v))) = Inr v"
proof -
  let ?W = "stack_world m spr base sp (le_bytes (nat n) v)"
  have rm: "range_mapped [(base, 0x3000, 3)] sp n"
    by (rule range_mapped_region[of base "0x3000" 3]) (use b in simp_all)
  have "read_bytes (mem ?W) sp (length (le_bytes (nat n) v)) = le_bytes (nat n) v"
  proof (rule read_bytes_eq)
    fix i assume "i < length (le_bytes (nat n) v)"
    then have "int i < n" by simp
    then show "mem ?W (sp + int i) = le_bytes (nat n) v ! i"
      using n by (simp add: stack_world_def)
  qed
  then have rb: "read_bytes (mem ?W) sp (nat n) = le_bytes (nat n) v" by simp
  have n0: "\<not> n < 0" using n by auto
  show ?thesis
    by (simp add: bindE_def uc_mem_read_def Let_def rm rb n0 pointer_roundtrip[OF n v])
qed

subsection \<open>The block hook at an export\<close>

lemma mem_read_emit:
  "uc_mem_read a n (emit e w) = (fst (uc_mem_read a n w), emit (Ev_mem_read a n) (emit e w))"
  by (simp add: uc_mem_read_def emit_def Let_def)

lemma stack_read_split:
  assumes "fst (bindE (uc_mem_read a n) (unpack_pointer n) w) = Inr v"
  shows "\<exists>d. fst (uc_mem_read a n w) = Inr d \<and> (\<forall>w'. unpack_pointer n d w' = (Inr v, w'))"
proof (cases "uc_mem_read a n w")
  case (Pair r w1)
  show ?thesis
  proof (cases r)
    case (Inl e)
    with Pair assms show ?thesis by (simp add: bindE_def)
  next
    case (Inr d)
    with Pair assms have "fst (unpack_pointer n d w1) = Inr v" by (simp add: bindE_def)
    then have "\<forall>w'. unpack_pointer n d w' = (Inr v, w')"
      by (simp add: unpack_pointer_def bindE_def lift_def split: sum.splits)
    with Pair Inr show ?thesis by simp
  qed
qed

lemma hook_block_unfold:
  assumes p: "select_profile (architecture pc) = Inr p"
  shows "unicorn_hook_block (pc, R) address =
     bindE (pc_enumerate_exported_functions pc) (\<lambda>exports_dict.
            case exports_dict address of
              None \<Rightarrow> ret ()
            | Some entry \<Rightarrow>
               bindE (uc_reg_read (prof_sp p)) (\<lambda>sp.
               bindE (uc_mem_read sp (pointer_size pc)) (\<lambda>ret_addr_data.
               bindE (unpack_pointer (pointer_size pc) ret_addr_data) (\<lambda>ret_addr.
               thenE (log DEBUG ''Reached API %s'' [Arg_str (name entry)])
                 (if ret_addr = R \<or> ret_addr = R + 1 \<or> ret_addr = STACK_MAGIC_RET_ADDR
                  then thenE (uc_reg_write (prof_result p) address) uc_emu_stop
                  else if is_no_return_api (name entry)
                  then thenE (log DEBUG ''Reached noreturn API, stopping emulation'' [])
                      (thenE (uc_reg_write (prof_result p) address) uc_emu_stop)
                  else if is_bogus_api (name entry)
                  then thenE (log DEBUG ''Reached bogus API call, skipping'' [])
                      (bindE (lift (simulate_bogus_api (name entry)))
                         (bogus_bypass (architecture pc) (pointer_size pc) (prof_pc p)
                            (prof_sp p) (prof_result p) sp ret_addr))
                  else ret ())))))"
  using profile_cases[OF p]
  by (elim disjE conjE) (simp_all only: unicorn_hook_block_def Let_def prod.case
        Architecture.distinct simp_thms if_True if_False profile_x86_32_fields profile_x86_64_fields)

lemma hook_block_export:
  assumes p: "select_profile (architecture pc) = Inr p"
      and ex: "enumerate_exported_functions pc address = Some entry"
      and rd: "fst (bindE (uc_mem_read (regs w (prof_sp p)) (pointer_size pc))
                     (unpack_pointer (pointer_size pc)) w) = Inr v"
  shows "unicorn_hook_block (pc, R) address w =
      (if v = R \<or> v = R + 1 \<or> v = STACK_MAGIC_RET_ADDR
                  then thenE (uc_reg_write (prof_result p) address) uc_emu_stop
                  else if is_no_return_api (name entry)
                  then thenE (log DEBUG ''Reached noreturn API, stopping emulation'' [])
                      (thenE (uc_reg_write (prof_result p) address) uc_emu_stop)
                  else if is_bogus_api (name entry)
                  then thenE (log DEBUG ''Reached bogus API call, skipping'' [])
                      (bindE (lift (simulate_bogus_api (name entry)))
                         (bogus_bypass (architecture pc) (pointer_size pc) (prof_pc p)
                            (prof_sp p) (prof_result p) (regs w (prof_sp p)) v))
                  else ret ())
        (emit (Ev_log DEBUG ''Reached API %s'' [Arg_str (name entry)])
                 (emit (Ev_mem_read (regs w (prof_sp p)) (pointer_size pc))
                 (emit (Ev_reg_read (prof_sp p)) (emit Ev_enumerate_exported_functions w))))"
proof -
  from stack_read_split[OF rd] obtain d where
    d: "fst (uc_mem_read (regs w (prof_sp p)) (pointer_size pc) w) = Inr d"
    and u: "\<And>w'. unpack_pointer (pointer_size pc) d w' = (Inr v, w')"
    by blast
  have d': "\<And>e1 e2. uc_mem_read (regs w (prof_sp p)) (pointer_size pc) (emit e1 (emit e2 w))
      = (Inr d, emit (Ev_mem_read (regs w (prof_sp p)) (pointer_size pc)) (emit e1 (emit e2 w)))"
    using d by (simp add: mem_read_emit)
  show ?thesis
    unfolding hook_block_unfold[OF p]
    by (simp only: bindE_def thenE_def pc_enumerate_exported_functions_def ex uc_reg_read_def
         d' u log_def prod.case sum.case option.case emit_fields)
qed

lemma stop_branch:
  "fst (thenE (uc_reg_write r a) uc_emu_stop w) = Inr ()"
  "stop_request (snd (thenE (uc_reg_write r a) uc_emu_stop w))"
  "regs (snd (thenE (uc_reg_write r a) uc_emu_stop w)) = reg_store r a (regs w)"
  "regions (snd (thenE (uc_reg_write r a) uc_emu_stop w)) = regions w"
  "mem (snd (thenE (uc_reg_write r a) uc_emu_stop w)) = mem w"
  "mode (snd (thenE (uc_reg_write r a) uc_emu_stop w)) = mode w"
  "trace (snd (thenE (uc_reg_write r a) uc_emu_stop w)) = trace w @ [Ev_reg_write r a, Ev_emu_stop]"
  by (simp_all add: thenE_def bindE_def uc_reg_write_def uc_emu_stop_def)

lemma bogus_is_sleep: "is_bogus_api n \<Longrightarrow> simulate_bogus_api n = Inr (0, 1)"
  by (simp add: is_bogus_api_def simulate_bogus_api_def)

lemma bogus_bypass_effect:
  "fst (bogus_bypass arch q pcr spr rr sp ra (res, n) w) = Inr ()"
  "stop_request (snd (bogus_bypass arch q pcr spr rr sp ra (res, n) w)) = stop_request w"
  "regions (snd (bogus_bypass arch q pcr spr rr sp ra (res, n) w)) = regions w"
  "mem (snd (bogus_bypass arch q pcr spr rr sp ra (res, n) w)) = mem w"
  "mode (snd (bogus_bypass arch q pcr spr rr sp ra (res, n) w)) = mode w"
  "regs (snd (bogus_bypass arch q pcr spr rr sp ra (res, n) w)) =
     (if arch = X86_32
      then reg_store pcr ra (reg_store spr (sp + q * (1 + n)) (reg_store rr res (regs w)))
      else if arch = X86_64
      then reg_store pcr ra
             (reg_store spr (sp + q * (1 + max 0 (n - 4))) (reg_store rr res (regs w)))
      else reg_store pcr ra (reg_store rr res (regs w)))"
  "trace (snd (bogus_bypass arch q pcr spr rr sp ra (res, n) w)) =
     (if arch = X86_32
      then trace w @ [Ev_reg_write rr res, Ev_reg_write spr (sp + q * (1 + n)),
                      Ev_reg_write pcr ra]
      else if arch = X86_64
      then trace w @ [Ev_reg_write rr res, Ev_reg_write spr (sp + q * (1 + max 0 (n - 4))),
                      Ev_reg_write pcr ra]
      else trace w @ [Ev_reg_write rr res, Ev_reg_write pcr ra])"
  by (simp_all add: bogus_bypass_def thenE_def bindE_def uc_reg_write_def ret_def Let_def)

lemma log_then: "thenE (log l m a) k w = k (emit (Ev_log l m a) w)"
  by (simp add: thenE_def bindE_def log_def)

lemma hook_block_stops:
  assumes p: "select_profile (architecture pc) = Inr p"
      and ex: "enumerate_exported_functions pc address = Some entry"
      and rd: "fst (bindE (uc_mem_read (regs w (prof_sp p)) (pointer_size pc))
                     (unpack_pointer (pointer_size pc)) w) = Inr v"
      and st: "v = R \<or> v = R + 1 \<or> v = STACK_MAGIC_RET_ADDR \<or> is_no_return_api (name entry)"
  shows "fst (unicorn_hook_block (pc, R) address w) = Inr ()"
    and "stop_request (snd (unicorn_hook_block (pc, R) address w))"
    and "regs (snd (unicorn_hook_block (pc, R) address w))
           = reg_store (prof_result p) address (regs w)"
    and "regions (snd (unicorn_hook_block (pc, R) address w)) = regions w"
    and "mem (snd (unicorn_hook_block (pc, R) address w)) = mem w"
    and "mode (snd (unicorn_hook_block (pc, R) address w)) = mode w"
  unfolding hook_block_export[OF p ex rd] using st
  by (auto simp: log_then stop_branch)

lemma demo_exports_simps [simp]:
  "demo_exports 0x77e01000 = Some \<lparr>name = ''ExitProcess''\<rparr>"
  "demo_exports 0x77e02000 = Some \<lparr>name = ''Sleep''\<rparr>"
  "demo_exports 0x77e03000 = Some \<lparr>name = ''CreateFileA''\<rparr>"
  by (simp_all add: demo_exports_def)

lemma api_names [simp]:
  "is_no_return_api ''ExitProcess''" "\<not> is_no_return_api ''Sleep''"
  "\<not> is_no_return_api ''CreateFileA''" "is_bogus_api ''Sleep''"
  "\<not> is_bogus_api ''CreateFileA''" "\<not> is_bogus_api ''ExitProcess''"
  by (simp_all add: is_no_return_api_def is_bogus_api_def)

subsection \<open>The fault handler\<close>

lemma and_page_mask: "(a::int) AND (2 ^ k - 1) = a mod 2 ^ k"
  by (simp add: take_bit_eq_mod[symmetric] take_bit_eq_mask mask_eq_exp_minus_1)

lemma mem_map_rejected:
  assumes "mem_map_error (mem_limit w) (regions w) a n = Some c"
  shows "uc_mem_map a n q w = (Inl (UcError c), emit (Ev_mem_map a n q) w)"
  using assms by (simp add: uc_mem_map_def Let_def)

lemma mem_map_accepted:
  assumes "mem_map_error (mem_limit w) (regions w) a n = None"
  shows "uc_mem_map a n q w
           = (Inr (), (emit (Ev_mem_map a n q) w)\<lparr>regions := regions w @ [(a, n, q)]\<rparr>)"
  using assms by (simp add: uc_mem_map_def Let_def)

lemma mem_write_fresh_region:
  "regions w = rs @ [(a, int (length data), q)] \<Longrightarrow>
   uc_mem_write a data w =
     (Inr (), (emit (Ev_mem_write a data) w)
        \<lparr>mem := (\<lambda>x. if a \<le> x \<and> x < a + int (length data)
                      then data ! nat (x - a) else mem w x)\<rparr>)"
  using range_mapped_region[of a "int (length data)" q "rs @ [(a, int (length data), q)]" a "int (length data)"]
  by (simp add: uc_mem_write_def Let_def cong: if_cong)

lemma hook_unmapped_unfold:
  assumes nz: "address \<noteq> 0"
      and pw: "page_size pc = 2 ^ k"
  shows "unicorn_hook_unmapped pc address w =
     catchE
       (bindE (pc_read_process_memory pc (address - address mod page_size pc) (page_size pc))
          (\<lambda>in_process_data.
              thenE (uc_mem_map (address - address mod page_size pc)
                       (int (length in_process_data)) UC_PROT_ALL)
             (thenE (uc_mem_write (address - address mod page_size pc) in_process_data)
             (thenE (log DEBUG ''Mapped %d bytes at %s''
                       [Arg_int (int (length in_process_data)),
                        Arg_hex (address - address mod page_size pc)])
             (ret True)))))
       (\<lambda>e. case e of
                 UcError c \<Rightarrow> thenE (log ERROR ''ERROR: %s'' [Arg_exc e]) (ret False)
               | ReadProcessMemoryError \<Rightarrow> thenE (log DEBUG ''ERROR: %s'' [Arg_exc e]) (ret False)
               | _ \<Rightarrow> thenE (log ERROR ''ERROR: %s'' [Arg_exc e]) (ret False))
       (emit (Ev_log DEBUG ''Unmapped memory at %s'' [Arg_hex address]) w)"
proof -
  have "address - (address AND (page_size pc - 1)) = address - address mod page_size pc"
    by (simp add: pw and_page_mask)
  then show ?thesis
    using nz by (simp add: unicorn_hook_unmapped_def log_then Let_def)
qed

lemma hook_unmapped_read_fails:
  assumes nz: "address \<noteq> 0"
      and pw: "page_size pc = 2 ^ k"
      and rd: "read_process_memory pc (address - address mod page_size pc) (page_size pc) = Inl e"
  shows "fst (unicorn_hook_unmapped pc address w) = Inr False
       \<and> regions (snd (unicorn_hook_unmapped pc address w)) = regions w
       \<and> trace (snd (unicorn_hook_unmapped pc address w))
           = trace w @ [Ev_log DEBUG ''Unmapped memory at %s'' [Arg_hex address],
                Ev_read_process_memory (address - address mod page_size pc) (page_size pc),
                Ev_log (if e = ReadProcessMemoryError then DEBUG else ERROR)
                  ''ERROR: %s'' [Arg_exc e]]"
  unfolding hook_unmapped_unfold[OF nz pw] using rd
  by (cases e) (simp_all add: catchE_def bindE_def pc_read_process_memory_def log_then ret_def)

lemma hook_unmapped_map_rejected:
  assumes nz: "address \<noteq> 0"
      and pw: "page_size pc = 2 ^ k"
      and rd: "read_process_memory pc (address - address mod page_size pc) (page_size pc)
                 = Inr data"
      and rej: "mem_map_error (mem_limit w) (regions w) (address - address mod page_size pc)
                  (int (length data)) = Some c"
  shows "fst (unicorn_hook_unmapped pc address w) = Inr False
       \<and> regions (snd (unicorn_hook_unmapped pc address w)) = regions w
       \<and> mem (snd (unicorn_hook_unmapped pc address w)) = mem w
       \<and> trace (snd (unicorn_hook_unmapped pc address w))
           = trace w @ [Ev_log DEBUG ''Unmapped memory at %s'' [Arg_hex address],
                Ev_read_process_memory (address - address mod page_size pc) (page_size pc),
                Ev_mem_map (address - address mod page_size pc) (int (length data)) UC_PROT_ALL,
                Ev_log ERROR ''ERROR: %s'' [Arg_exc (UcError c)]]"
proof -
  let ?al = "address - address mod page_size pc"
  let ?w2 = "emit (Ev_read_process_memory ?al (page_size pc))
               (emit (Ev_log DEBUG ''Unmapped memory at %s'' [Arg_hex address]) w)"
  have "mem_map_error (mem_limit ?w2) (regions ?w2) ?al (int (length data)) = Some c"
    using rej by simp
  from mem_map_rejected[OF this] have
    c: "uc_mem_map ?al (int (length data)) UC_PROT_ALL ?w2
         = (Inl (UcError c), emit (Ev_mem_map ?al (int (length data)) UC_PROT_ALL) ?w2)" .
  show ?thesis
    unfolding hook_unmapped_unfold[OF nz pw]
    by (simp add: catchE_def bindE_def thenE_def[of "uc_mem_map _ _ _"]
          pc_read_process_memory_def rd c log_then ret_def)
qed

lemma hook_unmapped_mapped:
  assumes nz: "address \<noteq> 0"
      and pw: "page_size pc = 2 ^ k"
      and rd: "read_process_memory pc (address - address mod page_size pc) (page_size pc)
                 = Inr data"
      and acc: "mem_map_error (mem_limit w) (regions w) (address - address mod page_size pc)
                  (int (length data)) = None"
  shows "fst (unicorn_hook_unmapped pc address w) = Inr True
       \<and> regions (snd (unicorn_hook_unmapped pc address w))
           = regions w @ [(address - address mod page_size pc, int (length data), UC_PROT_ALL)]
       \<and> (\<forall>i < length data.
             mem (snd (unicorn_hook_unmapped pc address w))
               (address - address mod page_size pc + int i) = data ! i)
       \<and> trace (snd (unicorn_hook_unmapped pc address w))
           = trace w @ [Ev_log DEBUG ''Unmapped memory at %s'' [Arg_hex address],
                Ev_read_process_memory (address - address mod page_size pc) (page_size pc),
                Ev_mem_map (address - address mod page_size pc) (int (length data)) UC_PROT_ALL,
                Ev_mem_write (address - address mod page_size pc) data,
                Ev_log DEBUG ''Mapped %d bytes at %s''
                  [Arg_int (int (length data)),
                   Arg_hex (address - address mod page_size pc)]]"
proof -
  let ?al = "address - address mod page_size pc"
  let ?w2 = "emit (Ev_read_process_memory ?al (page_size pc))
               (emit (Ev_log DEBUG ''Unmapped memory at %s'' [Arg_hex address]) w)"
  let ?w3 = "(emit (Ev_mem_map ?al (int (length data)) UC_PROT_ALL) ?w2)
               \<lparr>regions := regions w @ [(?al, int (length data), UC_PROT_ALL)]\<rparr>"
  have "mem_map_error (mem_limit ?w2) (regions ?w2) ?al (int (length data)) = None"
    using acc by simp
  from mem_map_accepted[OF this] have
    m: "uc_mem_map ?al (int (length data)) UC_PROT_ALL ?w2 = (Inr (), ?w3)" by simp
  have wr: "uc_mem_write ?al data ?w3 =
     (Inr (), (emit (Ev_mem_write ?al data) ?w3)
        \<lparr>mem := (\<lambda>x. if ?al \<le> x \<and> x < ?al + int (length data)
                      then data ! nat (x - ?al) else mem w x)\<rparr>)"
    using mem_write_fresh_region[of ?w3 "regions w" ?al data UC_PROT_ALL]
    by (simp cong: if_cong)
  show ?thesis
    unfolding hook_unmapped_unfold[OF nz pw]
    by (simp add: catchE_def bindE_def thenE_def[of "uc_mem_map _ _ _"]
          thenE_def[of "uc_mem_write _ _"]
          pc_read_process_memory_def rd m wr log_then ret_def)
qed

lemma demo_read_image:
  "0x400000 \<le> a \<Longrightarrow> a + 4096 \<le> 0x500000 \<Longrightarrow> demo_read a 4096 = Inr (replicate 4096 0x90)"
  "0x77e00000 \<le> a \<Longrightarrow> a + 4096 \<le> 0x77f00000 \<Longrightarrow> demo_read a 4096 = Inr (replicate 4096 0x90)"
  by (simp_all add: demo_read_def)

lemma demo_read_outside:
  "0x500000 \<le> a \<Longrightarrow> a + n \<le> 0x77e00000 \<Longrightarrow> 0 < n \<Longrightarrow> demo_read a n = Inl ReadProcessMemoryError"
  "a < 0x400000 \<Longrightarrow> demo_read a n = Inl ReadProcessMemoryError"
  by (simp_all add: demo_read_def)

lemma Uc_fields [simp]:
  "mode (Uc l a m) = m" "regs (Uc l a m) = (\<lambda>_. 0)" "regions (Uc l a m) = []"
  "stop_request (Uc l a m) = False" "mem_limit (Uc l a m) = l"
  "trace (Uc l a m) = [Ev_uc_open a m]" "mem (Uc l a m) = (\<lambda>_. 0)" "msrs (Uc l a m) = (\<lambda>_. 0)"
  by (simp_all add: Uc_def)

subsection \<open>Evaluation on the sample targets\<close>

lemmas act_defs = ret_def raise_def lift_def bindE_def thenE_def catchE_def log_def

lemmas engine_defs = uc_mem_map_def mem_map_error_def reg_store_def
  uc_mem_write_def uc_mem_read_def uc_reg_read_def
  uc_reg_write_def uc_msr_write_def uc_hook_add_def uc_emu_stop_def uc_page_def
  overlaps_def mapped_total_def

lemma pack_pointer_ok:
  assumes "n = 4 \<or> n = 8" "0 \<le> v" "v < 2 ^ (8 * nat n)"
  shows "pack_pointer n v w = (Inr (le_bytes (nat n) v), w)"
  using assms
  by (auto simp: pack_pointer_def pointer_size_to_fmt_def bindE_def lift_def struct_pack_def
        fmt_width_def)

lemma range_mapped_simp:
  "list_ex (\<lambda>(b, sz, p). b \<le> a \<and> a + n \<le> b + sz) rs \<Longrightarrow> range_mapped rs a n = True"
  apply (simp add: list_ex_iff)
  apply (erule bexE)
  subgoal for x by (cases x) (auto intro: range_mapped_region)
  done

lemma range_unmapped_simp:
  "0 < n \<Longrightarrow> \<not> addr_mapped rs a \<Longrightarrow> range_mapped rs a n = False"
  using range_mapped_first[of rs a n] by blast

lemmas run_defs = built_context_def build_context_def setup_teb_x86_def py_mod_def
  STACK_MAGIC_RET_ADDR_def act_defs engine_defs Let_def UC_PROT_ALL_def UC_PROT_READ_def
  UC_PROT_WRITE_def pack_pointer_ok range_mapped_simp emu_entry_def emu_step_def
  fault_hook_result_def unicorn_hook_unmapped_def pc_read_process_memory_def
  pc_reg_def addr_mapped_def demo_read_image apply_block_def emit_def
  unicorn_hook_block_def pc_enumerate_exported_functions_def demo_exports_def

subsection \<open>The loop and the entry point, in general\<close>

lemma emu_loop_run:
  "emu_run k cpu hu hb until r w = Some (w', r') \<Longrightarrow>
   emu_loop (k + n) cpu hu hb until r w = emu_loop n cpu hu hb until r' w'"
proof (induction k arbitrary: r w)
  case 0
  then show ?case by simp
next
  case (Suc k)
  show ?case
  proof (cases "emu_step cpu hu hb until r w")
    case (Running w1 r1)
    with Suc.prems have "emu_run k cpu hu hb until r1 w1 = Some (w', r')" by simp
    from Suc.IH[OF this] Running show ?thesis by simp
  next
    case (Finished res)
    with Suc.prems show ?thesis by simp
  qed
qed

lemma emu_loop_finish:
  assumes run: "emu_run k cpu hu hb until r w = Some (w', r')"
      and fin: "emu_step cpu hu hb until r' w' = Finished res"
      and fuel: "k < fuel"
  shows "emu_loop fuel cpu hu hb until r w = Some res"
proof -
  from fuel obtain n where "fuel = Suc (k + n)"
    using less_imp_Suc_add by blast
  then have n: "fuel = k + Suc n" by simp
  have "emu_loop (k + Suc n) cpu hu hb until r w = emu_loop (Suc n) cpu hu hb until r' w'"
    by (rule emu_loop_run[OF run])
  also have "\<dots> = Some res" using fin by simp
  finally show ?thesis by (simp only: n)
qed

lemma resolve_unfold:
  assumes "select_profile (architecture pc) = Inr p"
  shows "resolve_wrapped_api cpu host fuel start pc exp =
     map_option (\<lambda>(r, w). (r, trace w))
       (resolve_session cpu fuel start pc exp p (Uc host (prof_arch p) (prof_mode p)))"
  using assms by (simp add: resolve_wrapped_api_def)

lemma resolve_except_engine:
  "resolve_except p (UcError c) w =
     (Inr None,
      emit (Ev_log DEBUG ''BP=%s'' [Arg_hex (regs w (prof_bp p))])
     (emit (Ev_log DEBUG ''SP=%s'' [Arg_hex (regs w (prof_sp p))])
     (emit (Ev_log DEBUG ''PC=%s'' [Arg_hex (regs w (prof_pc p))])
     (emit (Ev_reg_read (prof_bp p))
     (emit (Ev_reg_read (prof_sp p))
     (emit (Ev_reg_read (prof_pc p))
     (emit (Ev_log DEBUG ''ERROR: %s'' [Arg_exc (UcError c)]) w)))))))"
  by (simp add: resolve_except_def log_then bindE_def uc_reg_read_def ret_def)

lemma resolve_except_other:
  assumes "\<forall>c. e \<noteq> UcError c"
  shows "resolve_except p e w = (Inl e, w)"
  using assms by (cases e) (simp_all add: resolve_except_def raise_def)

lemma resolve_build_fails:
  assumes p: "select_profile (architecture pc) = Inr p"
      and f: "fst (build_context p pc (Uc host (prof_arch p) (prof_mode p))) = Inl e"
  shows "map_option fst (resolve_wrapped_api cpu host fuel start pc exp)
           = Some (case e of UcError c \<Rightarrow> Inr None | _ \<Rightarrow> Inl e)"
proof -
  obtain w1 where b: "build_context p pc (Uc host (prof_arch p) (prof_mode p)) = (Inl e, w1)"
    using f by (cases "build_context p pc (Uc host (prof_arch p) (prof_mode p))") simp
  show ?thesis
  proof (cases "\<exists>c. e = UcError c")
    case True
    then obtain c where "e = UcError c" by blast
    then show ?thesis
      unfolding resolve_unfold[OF p] by (simp add: resolve_session_def b resolve_except_engine)
  next
    case False
    then have x: "resolve_except p e w1 = (Inl e, w1)"
      by (intro resolve_except_other) blast
    from False have y: "(case e of UcError c \<Rightarrow> Inr None | _ \<Rightarrow> Inl e) = Inl e"
      by (cases e) simp_all
    show ?thesis
      unfolding resolve_unfold[OF p] y by (simp add: resolve_session_def b x)
  qed
qed

lemma resolve_run_finished:
  assumes p: "select_profile (architecture pc) = Inr p"
      and ok: "fst (build_context p pc (Uc host (prof_arch p) (prof_mode p))) = Inr ()"
      and run: "emu_run k cpu (unicorn_hook_unmapped pc)
                  (unicorn_hook_block (pc, stop_address exp)) (start + 1024) False
                  (emu_entry start (start + 1024) (built_context p pc host)) = Some (w, r)"
      and fin: "emu_step cpu (unicorn_hook_unmapped pc)
                  (unicorn_hook_block (pc, stop_address exp)) (start + 1024) r w
                  = Finished (res, w2)"
      and fuel: "k < fuel"
  shows "resolve_wrapped_api cpu host fuel start pc exp =
     Some (case res of
             Inl e \<Rightarrow> (fst (resolve_except p e w2), trace (snd (resolve_except p e w2)))
           | Inr u \<Rightarrow> (Inr (Some (regs w2 (prof_result p))),
                       trace w2 @ [Ev_reg_read (prof_result p)]))"
proof -
  have b: "build_context p pc (Uc host (prof_arch p) (prof_mode p))
             = (Inr (), built_context p pc host)"
    using ok unfolding built_context_def
    by (cases "build_context p pc (Uc host (prof_arch p) (prof_mode p))") simp
  have e: "uc_emu_start cpu fuel (unicorn_hook_unmapped pc)
             (unicorn_hook_block (pc, stop_address exp)) start (start + 1024)
             (built_context p pc host) = Some (res, w2)"
    unfolding uc_emu_start_def by (rule emu_loop_finish[OF run fin fuel])
  show ?thesis
    unfolding resolve_unfold[OF p]
    by (cases res) (simp_all add: resolve_session_def b e bindE_def uc_reg_read_def ret_def
          split: prod.splits)
qed

subsection \<open>What the module's actions maintain of the register file\<close>

lemma keepsI: "(\<And>w. mode (snd (m w)) = mode w \<and> regs (snd (m w)) = regs w) \<Longrightarrow> keeps Q m"
  by (simp add: keeps_def)

lemma keeps_engine [intro!]:
  "keeps Q (ret x)" "keeps Q (raise e)" "keeps Q (lift v)" "keeps Q (log l s a)"
  "keeps Q (uc_mem_map ad n q)" "keeps Q (uc_mem_write ad d)" "keeps Q (uc_mem_read ad n)"
  "keeps Q (uc_reg_read r)" "keeps Q (uc_msr_write i v')" "keeps Q (uc_hook_add h)"
  "keeps Q uc_emu_stop" "keeps Q (pc_read_process_memory pc ad n)"
  "keeps Q (pc_enumerate_exported_functions pc)"
  by (rule keepsI,
      simp add: ret_def raise_def lift_def log_def uc_mem_map_def uc_mem_write_def
        uc_mem_read_def uc_reg_read_def uc_msr_write_def uc_hook_add_def uc_emu_stop_def
        pc_read_process_memory_def pc_enumerate_exported_functions_def Let_def
        split: option.splits)+

lemma keeps_bindE [intro!]:
  assumes "keeps Q m" and "\<And>x. keeps Q (f x)"
  shows "keeps Q (bindE m f)"
  using assms unfolding keeps_def bindE_def
  by (auto split: prod.splits sum.splits)

lemma keeps_thenE [intro!]:
  assumes "keeps Q m" and "keeps Q k"
  shows "keeps Q (thenE m k)"
  unfolding thenE_def using assms by (intro keeps_bindE)

lemma keeps_catchE [intro!]:
  assumes "keeps Q m" and "\<And>e. keeps Q (h e)"
  shows "keeps Q (catchE m h)"
  using assms unfolding keeps_def catchE_def
  by (auto split: prod.splits sum.splits)

lemma keeps_reg_write:
  assumes "\<And>m f. Q m f \<Longrightarrow> Q m (reg_store r v f)"
  shows "keeps Q (uc_reg_write r v)"
  using assms by (simp add: keeps_def uc_reg_write_def)

lemma keeps_pointer [intro!]:
  "keeps Q (pack_pointer n v)" "keeps Q (unpack_pointer n d)"
  unfolding pack_pointer_def unpack_pointer_def by blast+

lemma keeps_setup_teb [intro!]:
  "keeps Q (setup_teb_x86 pc)" "keeps Q (setup_teb_x64 pc)"
  unfolding setup_teb_x86_def setup_teb_x64_def Let_def by blast+

lemma keeps_build_context:
  assumes p: "select_profile a = Inr p"
      and sp: "\<And>m f v. Q m f \<Longrightarrow> Q m (reg_store (prof_sp p) v f)"
      and bp: "\<And>m f v. Q m f \<Longrightarrow> Q m (reg_store (prof_bp p) v f)"
  shows "keeps Q (build_context p pc)"
proof -
  have "keeps Q (prof_setup_teb p pc)"
    using profile_cases[OF p] by auto
  then show ?thesis
    unfolding build_context_def Let_def
    by (intro keeps_bindE keeps_thenE keeps_engine keeps_pointer keeps_reg_write sp bp)
qed

lemma keeps_hook_unmapped: "keeps Q (unicorn_hook_unmapped pc address)"
  unfolding unicorn_hook_unmapped_def Let_def
  by (auto split: error.splits)

lemma keeps_bogus_bypass:
  assumes "\<And>m f r v. Q m f \<Longrightarrow> Q m (reg_store r v f)"
  shows "keeps Q (bogus_bypass arch q pcr spr rr sp ra sim)"
  unfolding bogus_bypass_def Let_def
  by (cases sim) (auto intro!: keeps_reg_write assms)

lemma keeps_hook_block:
  assumes "\<And>m f r v. Q m f \<Longrightarrow> Q m (reg_store r v f)"
  shows "keeps Q (unicorn_hook_block ud address)"
  unfolding unicorn_hook_block_def Let_def
  by (cases ud)
     (auto intro!: keeps_reg_write keeps_bogus_bypass assms split: option.splits)

lemma regs_in_range_store: "regs_in_range f \<Longrightarrow> regs_in_range (reg_store r v f)"
  by (simp add: regs_in_range_def reg_store_def)

lemma regs_in_range_fold:
  "regs_in_range f \<Longrightarrow> regs_in_range (fold (\<lambda>(r, v). reg_store r v) rw f)"
  by (induction rw arbitrary: f) (auto intro: regs_in_range_store)

lemma emu_step_in_range:
  assumes st: "emu_step cpu (unicorn_hook_unmapped pc) (unicorn_hook_block ud) until r w
                 = Running w' r'"
      and inv: "mode w = md \<and> regs_in_range (regs w)"
  shows "mode w' = md \<and> regs_in_range (regs w')"
proof -
  let ?Q = "\<lambda>m f. m = md \<and> regs_in_range f"
  have hu: "?Q (mode (snd (unicorn_hook_unmapped pc a x))) (regs (snd (unicorn_hook_unmapped pc a x)))"
    if "?Q (mode x) (regs x)" for a x
    using keeps_hook_unmapped[of ?Q pc a] that unfolding keeps_def by blast
  have hb: "?Q (mode (snd (unicorn_hook_block ud a x))) (regs (snd (unicorn_hook_block ud a x)))"
    if "?Q (mode x) (regs x)" for a x
    using keeps_hook_block[of ?Q ud a] that regs_in_range_store unfolding keeps_def by blast
  have fh: "?Q (mode w') (regs w')"
    if "fault_hook_result c b (unicorn_hook_unmapped pc a x) = Running w' r'"
      and "?Q (mode x) (regs x)" for c b a x
    using that hu[of x a]
    by (auto simp: fault_hook_result_def split: prod.splits sum.splits bool.splits if_splits)
  show ?thesis
  proof (cases r)
    case True
    with st show ?thesis
      using inv fh
      by (auto simp: emu_step_def Let_def apply_block_def regs_in_range_fold
            split: if_splits block_result.splits)
  next
    case False
    with st show ?thesis
      using inv fh hb[of w "regs w (pc_reg (mode w))"]
      by (auto simp: emu_step_def Let_def apply_block_def regs_in_range_fold
            split: if_splits block_result.splits prod.splits sum.splits)
  qed
qed

lemma emu_run_in_range:
  assumes "emu_run k cpu (unicorn_hook_unmapped pc) (unicorn_hook_block ud) until r w
             = Some (w', r')"
      and "mode w = md \<and> regs_in_range (regs w)"
  shows "mode w' = md \<and> regs_in_range (regs w')"
  using assms
proof (induction k arbitrary: r w)
  case 0
  then show ?case by simp
next
  case (Suc k)
  show ?case
  proof (cases "emu_step cpu (unicorn_hook_unmapped pc) (unicorn_hook_block ud) until r w")
    case (Running w1 r1)
    from emu_step_in_range[OF Running Suc.prems(2)]
    have i1: "mode w1 = md \<and> regs_in_range (regs w1)" .
    from Suc.prems(1) Running
    have "emu_run k cpu (unicorn_hook_unmapped pc) (unicorn_hook_block ud) until r1 w1
            = Some (w', r')" by simp
    from Suc.IH[OF this i1] show ?thesis .
  next
    case (Finished res)
    with Suc.prems(1) show ?thesis by simp
  qed
qed

lemma built_context_in_range:
  assumes p: "select_profile a = Inr p"
  shows "mode (built_context p pc host) = prof_mode p
       \<and> regs_in_range (regs (built_context p pc host))"
proof -
  let ?Q = "\<lambda>m f. m = prof_mode p \<and> regs_in_range f"
  have "keeps ?Q (build_context p pc)"
    by (rule keeps_build_context[OF p]) (auto intro: regs_in_range_store)
  moreover have "?Q (mode (Uc host (prof_arch p) (prof_mode p)))
                    (regs (Uc host (prof_arch p) (prof_mode p)))"
    by (simp add: regs_in_range_def)
  ultimately show ?thesis
    unfolding built_context_def keeps_def by blast
qed

lemma entry_in_range:
  assumes p: "select_profile a = Inr p"
  shows "mode (emu_entry start until (built_context p pc host)) = prof_mode p
       \<and> regs_in_range (regs (emu_entry start until (built_context p pc host)))"
  using built_context_in_range[OF p, of pc host]
  by (simp add: emu_entry_def regs_in_range_store)

lemma build_context_result:
  assumes p: "select_profile a = Inr p"
  shows "regs (snd (build_context p pc w)) (prof_result p) = regs w (prof_result p)"
proof -
  let ?Q = "\<lambda>m f. f (prof_result p) = regs w (prof_result p)"
  have "keeps ?Q (build_context p pc)"
    by (rule keeps_build_context[OF p])
       (use profile_cases[OF p] in \<open>auto simp: reg_store_def\<close>)
  then show ?thesis unfolding keeps_def by blast
qed

lemma entry_result_zero:
  assumes p: "select_profile a = Inr p"
  shows "regs (emu_entry start until (built_context p pc host)) (prof_result p) = 0"
proof -
  have m: "mode (built_context p pc host) = prof_mode p"
    using built_context_in_range[OF p] by blast
  have r: "regs (built_context p pc host) (prof_result p) = 0"
    unfolding built_context_def by (simp add: build_context_result[OF p])
  from profile_cases[OF p] show ?thesis
    by (auto simp: emu_entry_def m r pc_reg_def reg_store_def)
qed

lemma pc_value_fits_result:
  assumes p: "select_profile a = Inr p"
      and md: "mode w = prof_mode p" and rg: "regs_in_range (regs w)"
  shows "regs w (pc_reg (mode w)) mod 2 ^ reg_bits (prof_result p) = regs w (pc_reg (mode w))"
proof -
  have "0 \<le> regs w (pc_reg (mode w))
      \<and> regs w (pc_reg (mode w)) < 2 ^ reg_bits (pc_reg (mode w))"
    using rg unfolding regs_in_range_def by blast
  moreover have "reg_bits (pc_reg (mode w)) = reg_bits (prof_result p)"
    using profile_cases[OF p] md by (auto simp: pc_reg_def)
  ultimately show ?thesis by simp
qed

lemma reached_export_resolves:
  assumes p: "select_profile (architecture pc) = Inr p"
      and ok: "fst (build_context p pc (Uc host (prof_arch p) (prof_mode p))) = Inr ()"
      and run: "emu_run k cpu (unicorn_hook_unmapped pc)
                  (unicorn_hook_block (pc, stop_address exp)) (start + 1024) False
                  (emu_entry start (start + 1024) (built_context p pc host)) = Some (w, False)"
      and at: "regs w (pc_reg (mode w)) = address"
      and nb: "address \<noteq> start + 1024"
      and mp: "addr_mapped (regions w) address"
      and ex: "enumerate_exported_functions pc address = Some entry"
      and rd: "fst (bindE (uc_mem_read (regs w (prof_sp p)) (pointer_size pc))
                     (unpack_pointer (pointer_size pc)) w) = Inr v"
      and st: "v = stop_address exp \<or> v = stop_address exp + 1
               \<or> v = STACK_MAGIC_RET_ADDR \<or> is_no_return_api (name entry)"
      and fuel: "k < fuel"
  shows "map_option fst (resolve_wrapped_api cpu host fuel start pc exp)
           = Some (Inr (Some address))"
proof -
  let ?H = "unicorn_hook_block (pc, stop_address exp) address w"
  note h = hook_block_stops[OF p ex rd st]
  obtain w' where H: "?H = (Inr (), w')"
    using h(1) by (cases ?H) simp
  have inv: "mode w = prof_mode p \<and> regs_in_range (regs w)"
    by (rule emu_run_in_range[OF run entry_in_range[OF p]])
  have fits: "address mod 2 ^ reg_bits (prof_result p) = address"
    using pc_value_fits_result[OF p, of w] inv at by simp
  have sr: "stop_request w'" and rg: "regs w' (prof_result p) = address"
    using h(2,3) fits by (simp_all add: H reg_store_def)
  have fin: "emu_step cpu (unicorn_hook_unmapped pc)
                  (unicorn_hook_block (pc, stop_address exp))
                  (start + 1024) False w = Finished (Inr (), w')"
    by (simp add: emu_step_def Let_def at nb mp H sr)
  show ?thesis
    unfolding resolve_run_finished[OF p ok run fin fuel]
    by (simp add: rg)
qed

lemma read_bytes_4: "read_bytes m a 4 = [m a, m (a + 1), m (a + 2), m (a + 3)]"
  by (simp add: numeral_eq_Suc add.commute)

lemmas hook_eval_defs = stop_address_def unpack_pointer_def pointer_size_to_fmt_def
  struct_unpack_def fmt_width_def read_bytes_4 range_unmapped_simp

subsection \<open>The construction of the context, mapping by mapping\<close>















section \<open>The claims\<close>

subsection \<open>Null faults\<close>

text \<open>
  C6. When the faulting address is the null address, the fault handler returns false; it
  makes no request of the process controller and none of the engine (the only thing added
  to the trace is its first logging call), and the engine's loop turns the unresolved fault
  into its exception, whatever kind of access faulted.
\<close>

theorem hook_unmapped_null:
  "unicorn_hook_unmapped process_controller 0 w
     = (Inr False, emit (Ev_log DEBUG ''Unmapped memory at %s'' [Arg_hex 0]) w)
   \<and> fault_hook_result c resume (unicorn_hook_unmapped process_controller 0 w)
     = Finished (Inl (UcError c), emit (Ev_log DEBUG ''Unmapped memory at %s'' [Arg_hex 0]) w)"
  by (simp add: unicorn_hook_unmapped_def thenE_def bindE_def log_def ret_def
        fault_hook_result_def)

subsection \<open>Unsupported architectures\<close>

text \<open>
  C7. For an architecture that is neither x86-32 nor x86-64, \<open>resolve_wrapped_api\<close> raises
  \<open>NotImplementedError\<close>; the trace of the call is empty, so no emulator was created and
  nothing was mapped, and neither profile was used.
\<close>

theorem resolve_unsupported_architecture:
  assumes "architecture process_controller \<noteq> X86_32"
      and "architecture process_controller \<noteq> X86_64"
  shows "resolve_wrapped_api cpu host_mem fuel wrapper_start_addr process_controller
           expected_ret_addr
         = Some (Inl (NotImplementedError
                       (Architecture_not_supported (architecture process_controller))), [])"
  using assms by (simp add: resolve_wrapped_api_def select_profile_def)

theorem resolve_unsupported_architecture_witness:
  "architecture demo_other \<noteq> X86_32 \<and> architecture demo_other \<noteq> X86_64
   \<and> resolve_wrapped_api cpu_jmp_exit (2 ^ 30) 10 0x401000 demo_other None
       = Some (Inl (NotImplementedError (Architecture_not_supported (Arch_other 0))), [])"
proof -
  have h1: "architecture demo_other \<noteq> X86_32" and h2: "architecture demo_other \<noteq> X86_64"
    by simp_all
  show ?thesis
    using h1 h2 resolve_unsupported_architecture [OF h1 h2, of cpu_jmp_exit "2 ^ 30" 10 "0x401000" None]
    by simp
qed

subsection \<open>The stop condition of the block hook\<close>

text \<open>
  C2, amended. At a block address in the exported-function directory whose name is not in
  the no-return set, with the expected return address \<open>R\<close> supplied and the pointer-sized
  value \<open>v\<close> readable at the top of the stack, the block hook requests the stop exactly when
  \<open>v\<close> is \<open>R\<close>, \<open>R + 1\<close> or the sentinel, and it then leaves the export's address in the
  result register: the register holds the address's low 32 or 64 bits, which is the address
  itself when it fits the register. (At an export of the no-return set the hook stops for
  every \<open>v\<close>: the counterexample below.)
\<close>

theorem block_hook_stop_condition:
  assumes p: "select_profile (architecture pc) = Inr p"
      and ex: "enumerate_exported_functions pc address = Some entry"
      and nr: "\<not> is_no_return_api (name entry)"
      and rd: "fst (bindE (uc_mem_read (regs w (prof_sp p)) (pointer_size pc))
                     (unpack_pointer (pointer_size pc)) w) = Inr v"
      and ns: "\<not> stop_request w"
  shows "fst (unicorn_hook_block (pc, stop_address (Some R)) address w) = Inr ()
     \<and> (stop_request (snd (unicorn_hook_block (pc, stop_address (Some R)) address w))
          \<longleftrightarrow> v = R \<or> v = R + 1 \<or> v = STACK_MAGIC_RET_ADDR)
     \<and> (v = R \<or> v = R + 1 \<or> v = STACK_MAGIC_RET_ADDR \<longrightarrow>
          regs (snd (unicorn_hook_block (pc, stop_address (Some R)) address w)) (prof_result p)
            = address mod 2 ^ reg_bits (prof_result p)
          \<and> (0 \<le> address \<and> address < 2 ^ reg_bits (prof_result p) \<longrightarrow>
               regs (snd (unicorn_hook_block (pc, stop_address (Some R)) address w))
                 (prof_result p) = address))"
proof -
  have sa: "stop_address (Some R) = R" by (simp add: stop_address_def)
  show ?thesis
  proof (cases "v = R \<or> v = R + 1 \<or> v = STACK_MAGIC_RET_ADDR")
    case True
    then show ?thesis
      unfolding sa hook_block_export[OF p ex rd] by (simp add: stop_branch reg_store_def)
  next
    case False
    show ?thesis
    proof (cases "is_bogus_api (name entry)")
      case b: True
      show ?thesis
        unfolding sa hook_block_export[OF p ex rd] using False nr ns b
        by (simp add: thenE_def bindE_def log_def lift_def bogus_is_sleep bogus_bypass_effect)
    next
      case b: False
      show ?thesis
        unfolding sa hook_block_export[OF p ex rd] using False nr ns b
        by (simp add: ret_def)
    qed
  qed
qed

theorem block_hook_stop_condition_counterexample:
  "enumerate_exported_functions demo32 0x77e01000 = Some \<lparr>name = ''ExitProcess''\<rparr>
   \<and> fst (bindE (uc_mem_read
                   (regs (stack_world UC_MODE_32 UC_X86_REG_ESP 0xff000000 0xff002000
                            (le_bytes 4 0x1234)) UC_X86_REG_ESP) (pointer_size demo32))
               (unpack_pointer (pointer_size demo32))
               (stack_world UC_MODE_32 UC_X86_REG_ESP 0xff000000 0xff002000
                  (le_bytes 4 0x1234))) = Inr 0x1234
   \<and> (0x1234 :: int) \<noteq> 0x401005 \<and> (0x1234 :: int) \<noteq> 0x401005 + 1
   \<and> 0x1234 \<noteq> STACK_MAGIC_RET_ADDR
   \<and> stop_request (snd (unicorn_hook_block (demo32, stop_address (Some 0x401005)) 0x77e01000
         (stack_world UC_MODE_32 UC_X86_REG_ESP 0xff000000 0xff002000 (le_bytes 4 0x1234))))
   \<and> regs (snd (unicorn_hook_block (demo32, stop_address (Some 0x401005)) 0x77e01000
         (stack_world UC_MODE_32 UC_X86_REG_ESP 0xff000000 0xff002000 (le_bytes 4 0x1234))))
        UC_X86_REG_EAX = 0x77e01000"
proof -
  let ?W = "stack_world UC_MODE_32 UC_X86_REG_ESP 0xff000000 0xff002000 (le_bytes 4 0x1234)"
  have p: "select_profile (architecture demo32) = Inr profile_x86_32" by simp
  have ex: "enumerate_exported_functions demo32 0x77e01000 = Some \<lparr>name = ''ExitProcess''\<rparr>"
    by simp
  have rd: "fst (bindE (uc_mem_read (regs ?W (prof_sp profile_x86_32)) (pointer_size demo32))
                  (unpack_pointer (pointer_size demo32)) ?W) = Inr 0x1234"
    using stack_world_top[of 4 "0x1234" "0xff000000" "0xff002000" UC_MODE_32 UC_X86_REG_ESP]
    by simp
  have st: "(0x1234::int) = R \<or> 0x1234 = R + 1 \<or> 0x1234 = STACK_MAGIC_RET_ADDR
            \<or> is_no_return_api (name \<lparr>name = ''ExitProcess''\<rparr>)" for R
    by simp
  note h = hook_block_stops[OF p ex rd st]
  show ?thesis
    using ex rd h(2)[of "stop_address (Some 0x401005)"] h(3)[of "stop_address (Some 0x401005)"]
    by (simp add: STACK_MAGIC_RET_ADDR_def reg_store_def)
qed

theorem block_hook_stop_condition_witness:
  "select_profile (architecture demo32) = Inr profile_x86_32
   \<and> enumerate_exported_functions demo32 0x77e03000 = Some \<lparr>name = ''CreateFileA''\<rparr>
   \<and> \<not> is_no_return_api (name \<lparr>name = ''CreateFileA''\<rparr>)
   \<and> fst (bindE (uc_mem_read
                   (regs (stack_world UC_MODE_32 UC_X86_REG_ESP 0xff000000 0xff002000
                            (le_bytes 4 0x401005)) (prof_sp profile_x86_32))
                   (pointer_size demo32))
               (unpack_pointer (pointer_size demo32))
               (stack_world UC_MODE_32 UC_X86_REG_ESP 0xff000000 0xff002000
                  (le_bytes 4 0x401005))) = Inr 0x401005
   \<and> \<not> stop_request (stack_world UC_MODE_32 UC_X86_REG_ESP 0xff000000 0xff002000
                          (le_bytes 4 0x401005))
   \<and> fst (unicorn_hook_block (demo32, stop_address (Some 0x401005)) 0x77e03000
         (stack_world UC_MODE_32 UC_X86_REG_ESP 0xff000000 0xff002000 (le_bytes 4 0x401005)))
       = Inr ()
   \<and> stop_request (snd (unicorn_hook_block (demo32, stop_address (Some 0x401005)) 0x77e03000
         (stack_world UC_MODE_32 UC_X86_REG_ESP 0xff000000 0xff002000 (le_bytes 4 0x401005))))
   \<and> regs (snd (unicorn_hook_block (demo32, stop_address (Some 0x401005)) 0x77e03000
         (stack_world UC_MODE_32 UC_X86_REG_ESP 0xff000000 0xff002000 (le_bytes 4 0x401005))))
        (prof_result profile_x86_32) = 0x77e03000"
proof -
  let ?W = "stack_world UC_MODE_32 UC_X86_REG_ESP 0xff000000 0xff002000 (le_bytes 4 0x401005)"
  have p: "select_profile (architecture demo32) = Inr profile_x86_32" by simp
  have ex: "enumerate_exported_functions demo32 0x77e03000 = Some \<lparr>name = ''CreateFileA''\<rparr>"
    by simp
  have nr: "\<not> is_no_return_api (name \<lparr>name = ''CreateFileA''\<rparr>)" by simp
  have rd: "fst (bindE (uc_mem_read (regs ?W (prof_sp profile_x86_32)) (pointer_size demo32))
                  (unpack_pointer (pointer_size demo32)) ?W) = Inr 0x401005"
    using stack_world_top[of 4 "0x401005" "0xff000000" "0xff002000" UC_MODE_32 UC_X86_REG_ESP]
    by simp
  have ns: "\<not> stop_request ?W" by simp
  show ?thesis
    using p ex nr rd ns block_hook_stop_condition[OF p ex nr rd ns, of "0x401005"]
    by simp
qed

subsection \<open>The tolerance on the sentinel\<close>

text \<open>
  C10. When the caller supplies no expected return address, the stop address handed to the
  block hook is the sentinel \<open>0xdeadbeef\<close>, and the tolerance of one applies to it: when the
  execution of the wrapper reaches, at a block start other than the bound of the emulated
  window, a mapped export with \<open>0xdeadbef0\<close> at the top of the stack, the block hook writes
  the export's address to the result register and requests the stop, and
  \<open>resolve_wrapped_api\<close> called with \<open>None\<close> returns that export's address, exactly as it
  does with \<open>0xdeadbeef\<close> at the top of the stack.
\<close>

theorem sentinel_plus_one_stops:
  assumes p: "select_profile (architecture process_controller) = Inr p"
      and ok: "fst (build_context p process_controller
                      (Uc host_mem (prof_arch p) (prof_mode p))) = Inr ()"
      and run: "emu_run k cpu (unicorn_hook_unmapped process_controller)
                  (unicorn_hook_block (process_controller, stop_address None))
                  (wrapper_start_addr + 1024) False
                  (emu_entry wrapper_start_addr (wrapper_start_addr + 1024)
                     (built_context p process_controller host_mem)) = Some (w, False)"
      and at: "regs w (pc_reg (mode w)) = address"
      and nb: "address \<noteq> wrapper_start_addr + 1024"
      and mp: "addr_mapped (regions w) address"
      and ex: "enumerate_exported_functions process_controller address = Some entry"
      and rd: "fst (bindE (uc_mem_read (regs w (prof_sp p)) (pointer_size process_controller))
                     (unpack_pointer (pointer_size process_controller)) w) = Inr v"
      and v: "v = 0xdeadbef0 \<or> v = 0xdeadbeef"
      and fuel: "k < fuel"
  shows "stop_address None = 0xdeadbeef
     \<and> fst (unicorn_hook_block (process_controller, stop_address None) address w) = Inr ()
     \<and> stop_request (snd (unicorn_hook_block (process_controller, stop_address None)
                             address w))
     \<and> regs (snd (unicorn_hook_block (process_controller, stop_address None) address w))
         (prof_result p) = address
     \<and> map_option fst (resolve_wrapped_api cpu host_mem fuel wrapper_start_addr
                           process_controller None)
         = Some (Inr (Some address))"
proof -
  have sa: "stop_address None = 0xdeadbeef"
    by (simp add: stop_address_def STACK_MAGIC_RET_ADDR_def)
  have st: "v = stop_address None \<or> v = stop_address None + 1 \<or> v = STACK_MAGIC_RET_ADDR
            \<or> is_no_return_api (name entry)"
    using v by (auto simp: sa)
  note h = hook_block_stops[OF p ex rd st]
  have inv: "mode w = prof_mode p \<and> regs_in_range (regs w)"
    by (rule emu_run_in_range[OF run entry_in_range[OF p]])
  have fits: "address mod 2 ^ reg_bits (prof_result p) = address"
    using pc_value_fits_result[OF p, of w] inv at by simp
  have rg: "regs (snd (unicorn_hook_block (process_controller, stop_address None) address w))
              (prof_result p) = address"
    using fits by (simp add: h(3) reg_store_def)
  have res: "map_option fst (resolve_wrapped_api cpu host_mem fuel wrapper_start_addr
                               process_controller None)
               = Some (Inr (Some address))"
    by (rule reached_export_resolves[OF p ok run at nb mp ex rd st fuel])
  show ?thesis
    using sa h(1,2) rg res by blast
qed

theorem sentinel_plus_one_stops_witness:
  "map_option fst (resolve_wrapped_api cpu_push_next (2 ^ 30) 10 0x401000 demo32 None)
     = Some (Inr (Some 0x77e03000))
   \<and> (\<exists>w. emu_run (Suc (Suc (Suc 0))) cpu_push_next (unicorn_hook_unmapped demo32)
             (unicorn_hook_block (demo32, stop_address None)) (0x401000 + 1024) False
             (emu_entry 0x401000 (0x401000 + 1024)
                (built_context profile_x86_32 demo32 (2 ^ 30)))
             = Some (w, False)
          \<and> regs w UC_X86_REG_EIP = 0x77e03000
          \<and> fst (bindE (uc_mem_read (regs w UC_X86_REG_ESP) 4) (unpack_pointer 4) w)
              = Inr 0xdeadbef0
          \<and> stop_request (snd (unicorn_hook_block (demo32, stop_address None) 0x77e03000 w))
          \<and> regs (snd (unicorn_hook_block (demo32, stop_address None) 0x77e03000 w))
               UC_X86_REG_EAX = 0x77e03000)"
proof -
  have p: "select_profile (architecture demo32) = Inr profile_x86_32" by simp
  have ok: "fst (build_context profile_x86_32 demo32
                   (Uc (2 ^ 30) (prof_arch profile_x86_32) (prof_mode profile_x86_32))) = Inr ()"
    by (simp add: run_defs)
  have "\<exists>w.
     emu_run (Suc (Suc (Suc 0))) cpu_push_next (unicorn_hook_unmapped demo32)
       (unicorn_hook_block (demo32, stop_address None)) (0x401000 + 1024) False
       (emu_entry 0x401000 (0x401000 + 1024) (built_context profile_x86_32 demo32 (2 ^ 30)))
       = Some (w, False)
     \<and> regs w (pc_reg (mode w)) = 0x77e03000
     \<and> regs w UC_X86_REG_EIP = 0x77e03000
     \<and> addr_mapped (regions w) 0x77e03000
     \<and> fst (bindE (uc_mem_read (regs w (prof_sp profile_x86_32)) (pointer_size demo32))
              (unpack_pointer (pointer_size demo32)) w) = Inr 0xdeadbef0"
    by (simp add: run_defs cpu_push_next_def hook_eval_defs)
  then obtain w where
    run: "emu_run (Suc (Suc (Suc 0))) cpu_push_next (unicorn_hook_unmapped demo32)
       (unicorn_hook_block (demo32, stop_address None)) (0x401000 + 1024) False
       (emu_entry 0x401000 (0x401000 + 1024) (built_context profile_x86_32 demo32 (2 ^ 30)))
       = Some (w, False)"
    and at: "regs w (pc_reg (mode w)) = 0x77e03000"
    and at': "regs w UC_X86_REG_EIP = 0x77e03000"
    and mp: "addr_mapped (regions w) 0x77e03000"
    and rd: "fst (bindE (uc_mem_read (regs w (prof_sp profile_x86_32)) (pointer_size demo32))
              (unpack_pointer (pointer_size demo32)) w) = Inr 0xdeadbef0"
    by blast
  have nb: "(0x77e03000::int) \<noteq> 0x401000 + 1024" by simp
  have ex: "enumerate_exported_functions demo32 0x77e03000 = Some \<lparr>name = ''CreateFileA''\<rparr>"
    by simp
  have v: "(0xdeadbef0::int) = 0xdeadbef0 \<or> (0xdeadbef0::int) = 0xdeadbeef" by simp
  have fuel: "Suc (Suc (Suc 0)) < 10" by simp
  note t = sentinel_plus_one_stops[OF p ok run at nb mp ex rd v fuel]
  have rd': "fst (bindE (uc_mem_read (regs w UC_X86_REG_ESP) 4) (unpack_pointer 4) w)
              = Inr 0xdeadbef0"
    using rd by simp
  have a: "map_option fst (resolve_wrapped_api cpu_push_next (2 ^ 30) 10 0x401000 demo32 None)
     = Some (Inr (Some 0x77e03000))"
    using t by blast
  have b1: "stop_request (snd (unicorn_hook_block (demo32, stop_address None) 0x77e03000 w))"
    using t by blast
  have "regs (snd (unicorn_hook_block (demo32, stop_address None) 0x77e03000 w))
          (prof_result profile_x86_32) = 0x77e03000"
    using t by blast
  then have b2: "regs (snd (unicorn_hook_block (demo32, stop_address None) 0x77e03000 w))
               UC_X86_REG_EAX = 0x77e03000"
    by simp
  note b = b1 b2
  show ?thesis
    using a run at' rd' b by blast
qed

subsection \<open>The bypass of a bogus call\<close>

text \<open>
  C4. With pointer size \<open>q\<close>, simulated result \<open>res\<close> and argument count \<open>n\<close>, the bypass
  writes \<open>sp + q * (1 + n)\<close> to the stack pointer on the 32-bit profile and
  \<open>sp + q * (1 + max 0 (n - 4))\<close> on the 64-bit profile, then the return address to the
  program counter: these are the values of the three register writes in the trace, and the
  registers hold them reduced to their 32 or 64 bits. The table gives \<open>Sleep\<close> one argument,
  so at the export \<open>Sleep\<close>, when the return address \<open>v\<close> at the top of the stack is none of
  the stop values, the hook writes to the stack pointer its value plus two pointer widths
  on the 32-bit profile and plus one pointer width on the 64-bit profile, writes \<open>v\<close> to the
  program counter and 0 to the result register, and requests no stop. The stack pointer
  read back is that sum in the arithmetic of the register: the sum itself when it fits the
  register, the sum modulo \<open>2 ^ 32\<close> (or \<open>2 ^ 64\<close>) when a stack pointer at the very top of
  the address space makes it wrap.
\<close>

theorem bogus_call_bypass:
  assumes p: "select_profile (architecture pc) = Inr p"
      and ex: "enumerate_exported_functions pc address = Some entry"
      and sl: "name entry = ''Sleep''"
      and rd: "fst (bindE (uc_mem_read (regs w (prof_sp p)) (pointer_size pc))
                     (unpack_pointer (pointer_size pc)) w) = Inr v"
      and nm: "v \<noteq> R" "v \<noteq> R + 1" "v \<noteq> STACK_MAGIC_RET_ADDR"
  shows "trace (snd (bogus_bypass X86_32 q UC_X86_REG_EIP UC_X86_REG_ESP UC_X86_REG_EAX
                      sp ra (res, n) w0))
           = trace w0 @ [Ev_reg_write UC_X86_REG_EAX res,
                         Ev_reg_write UC_X86_REG_ESP (sp + q * (1 + n)),
                         Ev_reg_write UC_X86_REG_EIP ra]
     \<and> regs (snd (bogus_bypass X86_32 q UC_X86_REG_EIP UC_X86_REG_ESP UC_X86_REG_EAX
                      sp ra (res, n) w0))
           = (regs w0)(UC_X86_REG_EAX := res mod 2 ^ 32,
                       UC_X86_REG_ESP := (sp + q * (1 + n)) mod 2 ^ 32,
                       UC_X86_REG_EIP := ra mod 2 ^ 32)
     \<and> trace (snd (bogus_bypass X86_64 q UC_X86_REG_RIP UC_X86_REG_RSP UC_X86_REG_RAX
                      sp ra (res, n) w0))
           = trace w0 @ [Ev_reg_write UC_X86_REG_RAX res,
                         Ev_reg_write UC_X86_REG_RSP (sp + q * (1 + max 0 (n - 4))),
                         Ev_reg_write UC_X86_REG_RIP ra]
     \<and> regs (snd (bogus_bypass X86_64 q UC_X86_REG_RIP UC_X86_REG_RSP UC_X86_REG_RAX
                      sp ra (res, n) w0))
           = (regs w0)(UC_X86_REG_RAX := res mod 2 ^ 64,
                       UC_X86_REG_RSP := (sp + q * (1 + max 0 (n - 4))) mod 2 ^ 64,
                       UC_X86_REG_RIP := ra mod 2 ^ 64)
     \<and> simulate_bogus_api ''Sleep'' = Inr (0, 1)
     \<and> fst (unicorn_hook_block (pc, R) address w) = Inr ()
     \<and> trace (snd (unicorn_hook_block (pc, R) address w))
         = trace w @ [Ev_enumerate_exported_functions, Ev_reg_read (prof_sp p),
              Ev_mem_read (regs w (prof_sp p)) (pointer_size pc),
              Ev_log DEBUG ''Reached API %s'' [Arg_str ''Sleep''],
              Ev_log DEBUG ''Reached bogus API call, skipping'' [],
              Ev_reg_write (prof_result p) 0,
              Ev_reg_write (prof_sp p)
                (regs w (prof_sp p)
                 + pointer_size pc * (if architecture pc = X86_32 then 2 else 1)),
              Ev_reg_write (prof_pc p) v]
     \<and> regs (snd (unicorn_hook_block (pc, R) address w)) (prof_sp p)
         = (regs w (prof_sp p)
            + pointer_size pc * (if architecture pc = X86_32 then 2 else 1))
           mod 2 ^ reg_bits (prof_sp p)
     \<and> (0 \<le> regs w (prof_sp p)
              + pointer_size pc * (if architecture pc = X86_32 then 2 else 1)
          \<and> regs w (prof_sp p)
              + pointer_size pc * (if architecture pc = X86_32 then 2 else 1)
              < 2 ^ reg_bits (prof_sp p)
          \<longrightarrow> regs (snd (unicorn_hook_block (pc, R) address w)) (prof_sp p)
                = regs w (prof_sp p)
                  + pointer_size pc * (if architecture pc = X86_32 then 2 else 1))
     \<and> regs (snd (unicorn_hook_block (pc, R) address w)) (prof_pc p)
         = v mod 2 ^ reg_bits (prof_pc p)
     \<and> regs (snd (unicorn_hook_block (pc, R) address w)) (prof_result p) = 0
     \<and> stop_request (snd (unicorn_hook_block (pc, R) address w)) = stop_request w"
proof -
  have nr: "\<not> is_no_return_api (name entry)" and bg: "is_bogus_api (name entry)"
    by (simp_all add: sl)
  have eq: "unicorn_hook_block (pc, R) address w =
      bogus_bypass (architecture pc) (pointer_size pc) (prof_pc p) (prof_sp p) (prof_result p)
        (regs w (prof_sp p)) v (0, 1)
        (emit (Ev_log DEBUG ''Reached bogus API call, skipping'' [])
        (emit (Ev_log DEBUG ''Reached API %s'' [Arg_str (name entry)])
        (emit (Ev_mem_read (regs w (prof_sp p)) (pointer_size pc))
        (emit (Ev_reg_read (prof_sp p)) (emit Ev_enumerate_exported_functions w)))))"
    unfolding hook_block_export[OF p ex rd] using nm nr bg
    by (simp add: log_then bindE_def lift_def bogus_is_sleep)
  have sim: "simulate_bogus_api ''Sleep'' = Inr (0, 1)"
    by (simp add: bogus_is_sleep)
  have byp: "trace (snd (bogus_bypass X86_32 q UC_X86_REG_EIP UC_X86_REG_ESP UC_X86_REG_EAX
                      sp ra (res, n) w0))
           = trace w0 @ [Ev_reg_write UC_X86_REG_EAX res,
                         Ev_reg_write UC_X86_REG_ESP (sp + q * (1 + n)),
                         Ev_reg_write UC_X86_REG_EIP ra]"
    "regs (snd (bogus_bypass X86_32 q UC_X86_REG_EIP UC_X86_REG_ESP UC_X86_REG_EAX
                      sp ra (res, n) w0))
           = (regs w0)(UC_X86_REG_EAX := res mod 2 ^ 32,
                       UC_X86_REG_ESP := (sp + q * (1 + n)) mod 2 ^ 32,
                       UC_X86_REG_EIP := ra mod 2 ^ 32)"
    "trace (snd (bogus_bypass X86_64 q UC_X86_REG_RIP UC_X86_REG_RSP UC_X86_REG_RAX
                      sp ra (res, n) w0))
           = trace w0 @ [Ev_reg_write UC_X86_REG_RAX res,
                         Ev_reg_write UC_X86_REG_RSP (sp + q * (1 + max 0 (n - 4))),
                         Ev_reg_write UC_X86_REG_RIP ra]"
    "regs (snd (bogus_bypass X86_64 q UC_X86_REG_RIP UC_X86_REG_RSP UC_X86_REG_RAX
                      sp ra (res, n) w0))
           = (regs w0)(UC_X86_REG_RAX := res mod 2 ^ 64,
                       UC_X86_REG_RSP := (sp + q * (1 + max 0 (n - 4))) mod 2 ^ 64,
                       UC_X86_REG_RIP := ra mod 2 ^ 64)"
    by (simp_all add: bogus_bypass_effect reg_store_def)
  have hook: "fst (unicorn_hook_block (pc, R) address w) = Inr ()
     \<and> trace (snd (unicorn_hook_block (pc, R) address w))
         = trace w @ [Ev_enumerate_exported_functions, Ev_reg_read (prof_sp p),
              Ev_mem_read (regs w (prof_sp p)) (pointer_size pc),
              Ev_log DEBUG ''Reached API %s'' [Arg_str ''Sleep''],
              Ev_log DEBUG ''Reached bogus API call, skipping'' [],
              Ev_reg_write (prof_result p) 0,
              Ev_reg_write (prof_sp p)
                (regs w (prof_sp p)
                 + pointer_size pc * (if architecture pc = X86_32 then 2 else 1)),
              Ev_reg_write (prof_pc p) v]
     \<and> regs (snd (unicorn_hook_block (pc, R) address w)) (prof_sp p)
         = (regs w (prof_sp p)
            + pointer_size pc * (if architecture pc = X86_32 then 2 else 1))
           mod 2 ^ reg_bits (prof_sp p)
     \<and> regs (snd (unicorn_hook_block (pc, R) address w)) (prof_pc p)
         = v mod 2 ^ reg_bits (prof_pc p)
     \<and> regs (snd (unicorn_hook_block (pc, R) address w)) (prof_result p) = 0
     \<and> stop_request (snd (unicorn_hook_block (pc, R) address w)) = stop_request w"
    using profile_cases[OF p]
  proof (elim disjE conjE)
    assume "architecture pc = X86_32" "p = profile_x86_32"
    then show ?thesis
      unfolding eq by (simp add: bogus_bypass_effect reg_store_def sl)
  next
    assume "architecture pc = X86_64" "p = profile_x86_64"
    then show ?thesis
      unfolding eq by (simp add: bogus_bypass_effect reg_store_def sl)
  qed
  have fits: "regs (snd (unicorn_hook_block (pc, R) address w)) (prof_sp p)
                = regs w (prof_sp p)
                  + pointer_size pc * (if architecture pc = X86_32 then 2 else 1)"
    if "0 \<le> regs w (prof_sp p)
              + pointer_size pc * (if architecture pc = X86_32 then 2 else 1)
          \<and> regs w (prof_sp p)
              + pointer_size pc * (if architecture pc = X86_32 then 2 else 1)
              < 2 ^ reg_bits (prof_sp p)"
    using hook that by (simp only: mod_pos_pos_trivial)
  show ?thesis
    using byp sim hook fits by blast
qed

theorem bogus_call_bypass_witness:
  "regs (snd (unicorn_hook_block (demo32, 0x401005) 0x77e02000
         (stack_world UC_MODE_32 UC_X86_REG_ESP 0xff000000 0xff002000 (le_bytes 4 0x401020))))
       UC_X86_REG_ESP = 0xff002000 + 4 * 2
   \<and> regs (snd (unicorn_hook_block (demo32, 0x401005) 0x77e02000
         (stack_world UC_MODE_32 UC_X86_REG_ESP 0xff000000 0xff002000 (le_bytes 4 0x401020))))
       UC_X86_REG_EIP = 0x401020
   \<and> regs (snd (unicorn_hook_block (demo64, 0x401005) 0x77e02000
         (stack_world UC_MODE_64 UC_X86_REG_RSP 0xff00000000000000 0xff00000000002000
            (le_bytes 8 0x401020))))
       UC_X86_REG_RSP = 0xff00000000002000 + 8 * 1
   \<and> regs (snd (unicorn_hook_block (demo64, 0x401005) 0x77e02000
         (stack_world UC_MODE_64 UC_X86_REG_RSP 0xff00000000000000 0xff00000000002000
            (le_bytes 8 0x401020))))
       UC_X86_REG_RIP = 0x401020
   \<and> trace (snd (unicorn_hook_block (demo32, 0x401005) 0x77e02000
         (stack_world UC_MODE_32 UC_X86_REG_ESP 0xffffd000 0xfffffffc (le_bytes 4 0x401020))))
       = [Ev_enumerate_exported_functions, Ev_reg_read UC_X86_REG_ESP,
          Ev_mem_read 0xfffffffc 4,
          Ev_log DEBUG ''Reached API %s'' [Arg_str ''Sleep''],
          Ev_log DEBUG ''Reached bogus API call, skipping'' [],
          Ev_reg_write UC_X86_REG_EAX 0,
          Ev_reg_write UC_X86_REG_ESP 0x100000004,
          Ev_reg_write UC_X86_REG_EIP 0x401020]
   \<and> regs (snd (unicorn_hook_block (demo32, 0x401005) 0x77e02000
         (stack_world UC_MODE_32 UC_X86_REG_ESP 0xffffd000 0xfffffffc (le_bytes 4 0x401020))))
       UC_X86_REG_ESP = 4
   \<and> regs (snd (unicorn_hook_block (demo64, 0x401005) 0x77e02000
         (stack_world UC_MODE_64 UC_X86_REG_RSP 0xffffffffffffd000 0xfffffffffffffff8
            (le_bytes 8 0x401020))))
       UC_X86_REG_RSP = 0"
proof -
  let ?W = "stack_world UC_MODE_32 UC_X86_REG_ESP 0xff000000 0xff002000 (le_bytes 4 0x401020)"
  let ?V = "stack_world UC_MODE_64 UC_X86_REG_RSP 0xff00000000000000 0xff00000000002000
              (le_bytes 8 0x401020)"
  let ?W' = "stack_world UC_MODE_32 UC_X86_REG_ESP 0xffffd000 0xfffffffc (le_bytes 4 0x401020)"
  let ?V' = "stack_world UC_MODE_64 UC_X86_REG_RSP 0xffffffffffffd000 0xfffffffffffffff8
              (le_bytes 8 0x401020)"
  have p: "select_profile (architecture demo32) = Inr profile_x86_32"
    and p': "select_profile (architecture demo64) = Inr profile_x86_64" by simp_all
  have ex: "enumerate_exported_functions demo32 0x77e02000 = Some \<lparr>name = ''Sleep''\<rparr>"
    and ex': "enumerate_exported_functions demo64 0x77e02000 = Some \<lparr>name = ''Sleep''\<rparr>"
    by simp_all
  have sl: "name \<lparr>name = ''Sleep''\<rparr> = ''Sleep''" by simp
  have rd: "fst (bindE (uc_mem_read (regs ?W (prof_sp profile_x86_32)) (pointer_size demo32))
                  (unpack_pointer (pointer_size demo32)) ?W) = Inr 0x401020"
    using stack_world_top[of 4 "0x401020" "0xff000000" "0xff002000" UC_MODE_32 UC_X86_REG_ESP]
    by simp
  have rd': "fst (bindE (uc_mem_read (regs ?V (prof_sp profile_x86_64)) (pointer_size demo64))
                  (unpack_pointer (pointer_size demo64)) ?V) = Inr 0x401020"
    using stack_world_top[of 8 "0x401020" "0xff00000000000000" "0xff00000000002000"
            UC_MODE_64 UC_X86_REG_RSP]
    by simp
  have rdw: "fst (bindE (uc_mem_read (regs ?W' (prof_sp profile_x86_32)) (pointer_size demo32))
                  (unpack_pointer (pointer_size demo32)) ?W') = Inr 0x401020"
    using stack_world_top[of 4 "0x401020" "0xffffd000" "0xfffffffc" UC_MODE_32 UC_X86_REG_ESP]
    by simp
  have rdw': "fst (bindE (uc_mem_read (regs ?V' (prof_sp profile_x86_64)) (pointer_size demo64))
                  (unpack_pointer (pointer_size demo64)) ?V') = Inr 0x401020"
    using stack_world_top[of 8 "0x401020" "0xffffffffffffd000" "0xfffffffffffffff8"
            UC_MODE_64 UC_X86_REG_RSP]
    by simp
  have nm: "(0x401020::int) \<noteq> 0x401005" "(0x401020::int) \<noteq> 0x401005 + 1"
    "0x401020 \<noteq> STACK_MAGIC_RET_ADDR"
    by (simp_all add: STACK_MAGIC_RET_ADDR_def)
  show ?thesis
    using bogus_call_bypass[OF p ex sl rd nm] bogus_call_bypass[OF p' ex' sl rd' nm]
      bogus_call_bypass[OF p ex sl rdw nm] bogus_call_bypass[OF p' ex' sl rdw' nm]
    by simp
qed

subsection \<open>Demand paging\<close>

text \<open>
  C3, amended. For every nonzero faulting address and a page size that is a power of two,
  the containing page is \<open>address - address mod page_size\<close>, and the handler asks the
  process controller for exactly one page-sized read at that address: in each of the three
  outcomes the trace holds one read request, of that address and that size. When the read
  fails, the handler logs the error (at level DEBUG for \<open>ReadProcessMemoryError\<close>, ERROR
  otherwise), makes no request to the engine, leaves the regions as they were and returns
  false. When the read succeeds and the engine rejects the mapping of the bytes read
  (\<open>mem_map_error\<close> gives an error code), the handler logs that error at level ERROR, writes
  nothing, leaves the regions and the memory as they were and returns false. When the read
  succeeds and the engine accepts the mapping, the handler maps the bytes read with full
  permissions at the page, writes them there, logs the mapping and returns true.
\<close>

theorem hook_unmapped_pages_in:
  assumes nz: "address \<noteq> 0"
      and pw: "page_size pc = 2 ^ k"
  shows "(\<forall>e. read_process_memory pc (address - address mod page_size pc) (page_size pc) = Inl e
            \<longrightarrow> fst (unicorn_hook_unmapped pc address w) = Inr False
                \<and> regions (snd (unicorn_hook_unmapped pc address w)) = regions w
                \<and> trace (snd (unicorn_hook_unmapped pc address w))
                    = trace w @ [Ev_log DEBUG ''Unmapped memory at %s'' [Arg_hex address],
                         Ev_read_process_memory (address - address mod page_size pc) (page_size pc),
                         Ev_log (if e = ReadProcessMemoryError then DEBUG else ERROR)
                           ''ERROR: %s'' [Arg_exc e]])
     \<and> (\<forall>data c.
            read_process_memory pc (address - address mod page_size pc) (page_size pc) = Inr data
            \<longrightarrow> mem_map_error (mem_limit w) (regions w) (address - address mod page_size pc)
                  (int (length data)) = Some c
            \<longrightarrow> fst (unicorn_hook_unmapped pc address w) = Inr False
                \<and> regions (snd (unicorn_hook_unmapped pc address w)) = regions w
                \<and> mem (snd (unicorn_hook_unmapped pc address w)) = mem w
                \<and> trace (snd (unicorn_hook_unmapped pc address w))
                    = trace w @ [Ev_log DEBUG ''Unmapped memory at %s'' [Arg_hex address],
                         Ev_read_process_memory (address - address mod page_size pc) (page_size pc),
                         Ev_mem_map (address - address mod page_size pc) (int (length data))
                           UC_PROT_ALL,
                         Ev_log ERROR ''ERROR: %s'' [Arg_exc (UcError c)]])
     \<and> (\<forall>data.
            read_process_memory pc (address - address mod page_size pc) (page_size pc) = Inr data
            \<longrightarrow> mem_map_error (mem_limit w) (regions w) (address - address mod page_size pc)
                  (int (length data)) = None
            \<longrightarrow> fst (unicorn_hook_unmapped pc address w) = Inr True
                \<and> regions (snd (unicorn_hook_unmapped pc address w))
                    = regions w @ [(address - address mod page_size pc, int (length data), UC_PROT_ALL)]
                \<and> (\<forall>i < length data.
                      mem (snd (unicorn_hook_unmapped pc address w))
                        (address - address mod page_size pc + int i) = data ! i)
                \<and> trace (snd (unicorn_hook_unmapped pc address w))
                    = trace w @ [Ev_log DEBUG ''Unmapped memory at %s'' [Arg_hex address],
                         Ev_read_process_memory (address - address mod page_size pc) (page_size pc),
                         Ev_mem_map (address - address mod page_size pc) (int (length data)) UC_PROT_ALL,
                         Ev_mem_write (address - address mod page_size pc) data,
                         Ev_log DEBUG ''Mapped %d bytes at %s''
                           [Arg_int (int (length data)),
                            Arg_hex (address - address mod page_size pc)]])"
  using hook_unmapped_read_fails[OF nz pw, of _ w] hook_unmapped_map_rejected[OF nz pw, of _ w]
    hook_unmapped_mapped[OF nz pw, of _ w]
  by blast

theorem hook_unmapped_pages_in_witness:
  "(0x401234 :: int) \<noteq> 0 \<and> page_size demo32 = 2 ^ 12
   \<and> read_process_memory demo32 0x401000 4096 = Inr (replicate 4096 0x90)
   \<and> mem_map_error (2 ^ 30) [] 0x401000 4096 = None
   \<and> fst (unicorn_hook_unmapped demo32 0x401234 (Uc (2 ^ 30) UC_ARCH_X86 UC_MODE_32)) = Inr True
   \<and> regions (snd (unicorn_hook_unmapped demo32 0x401234 (Uc (2 ^ 30) UC_ARCH_X86 UC_MODE_32)))
       = [(0x401000, 4096, UC_PROT_ALL)]
   \<and> trace (snd (unicorn_hook_unmapped demo32 0x401234 (Uc (2 ^ 30) UC_ARCH_X86 UC_MODE_32)))
       = [Ev_uc_open UC_ARCH_X86 UC_MODE_32,
          Ev_log DEBUG ''Unmapped memory at %s'' [Arg_hex 0x401234],
          Ev_read_process_memory 0x401000 4096,
          Ev_mem_map 0x401000 4096 UC_PROT_ALL,
          Ev_mem_write 0x401000 (replicate 4096 0x90),
          Ev_log DEBUG ''Mapped %d bytes at %s'' [Arg_int 4096, Arg_hex 0x401000]]
   \<and> (0x401434 :: int) \<noteq> 0 \<and> page_size demo_small_pages = 2 ^ 10
   \<and> read_process_memory demo_small_pages 0x401400 1024 = Inr (replicate 1024 0x90)
   \<and> mem_map_error (2 ^ 30) [] 0x401400 1024 = Some UC_ERR_ARG
   \<and> fst (unicorn_hook_unmapped demo_small_pages 0x401434 (Uc (2 ^ 30) UC_ARCH_X86 UC_MODE_32))
       = Inr False
   \<and> regions (snd (unicorn_hook_unmapped demo_small_pages 0x401434
                     (Uc (2 ^ 30) UC_ARCH_X86 UC_MODE_32))) = []
   \<and> trace (snd (unicorn_hook_unmapped demo_small_pages 0x401434
                   (Uc (2 ^ 30) UC_ARCH_X86 UC_MODE_32)))
       = [Ev_uc_open UC_ARCH_X86 UC_MODE_32,
          Ev_log DEBUG ''Unmapped memory at %s'' [Arg_hex 0x401434],
          Ev_read_process_memory 0x401400 1024,
          Ev_mem_map 0x401400 1024 UC_PROT_ALL,
          Ev_log ERROR ''ERROR: %s'' [Arg_exc (UcError UC_ERR_ARG)]]
   \<and> (0x600000 :: int) \<noteq> 0
   \<and> read_process_memory demo32 0x600000 4096 = Inl ReadProcessMemoryError
   \<and> fst (unicorn_hook_unmapped demo32 0x600000 (Uc (2 ^ 30) UC_ARCH_X86 UC_MODE_32))
       = Inr False
   \<and> trace (snd (unicorn_hook_unmapped demo32 0x600000 (Uc (2 ^ 30) UC_ARCH_X86 UC_MODE_32)))
       = [Ev_uc_open UC_ARCH_X86 UC_MODE_32,
          Ev_log DEBUG ''Unmapped memory at %s'' [Arg_hex 0x600000],
          Ev_read_process_memory 0x600000 4096,
          Ev_log DEBUG ''ERROR: %s'' [Arg_exc ReadProcessMemoryError]]"
proof -
  let ?U = "Uc (2 ^ 30) UC_ARCH_X86 UC_MODE_32"
  note ev = mem_map_error_def overlaps_def mapped_total_def uc_page_def
  have nz: "(0x401234 :: int) \<noteq> 0" "(0x401434 :: int) \<noteq> 0" "(0x600000 :: int) \<noteq> 0"
    by simp_all
  have pw: "page_size demo32 = 2 ^ 12" "page_size demo_small_pages = 2 ^ 10" by simp_all
  have al: "(0x401234 :: int) - 0x401234 mod page_size demo32 = 0x401000"
    "(0x401434 :: int) - 0x401434 mod page_size demo_small_pages = 0x401400"
    "(0x600000 :: int) - 0x600000 mod page_size demo32 = 0x600000"
    by simp_all
  have rd: "read_process_memory demo32 0x401000 4096 = Inr (replicate 4096 0x90)"
    "read_process_memory demo_small_pages 0x401400 1024 = Inr (replicate 1024 0x90)"
    "read_process_memory demo32 0x600000 4096 = Inl ReadProcessMemoryError"
    by (simp_all add: demo_read_def)
  have mm: "mem_map_error (2 ^ 30) [] 0x401000 4096 = None"
    "mem_map_error (2 ^ 30) [] 0x401400 1024 = Some UC_ERR_ARG"
    by (simp_all add: ev)
  have a: "fst (unicorn_hook_unmapped demo32 0x401234 ?U) = Inr True
      \<and> regions (snd (unicorn_hook_unmapped demo32 0x401234 ?U))
          = [(0x401000, 4096, UC_PROT_ALL)]
      \<and> trace (snd (unicorn_hook_unmapped demo32 0x401234 ?U))
          = [Ev_uc_open UC_ARCH_X86 UC_MODE_32,
             Ev_log DEBUG ''Unmapped memory at %s'' [Arg_hex 0x401234],
             Ev_read_process_memory 0x401000 4096,
             Ev_mem_map 0x401000 4096 UC_PROT_ALL,
             Ev_mem_write 0x401000 (replicate 4096 0x90),
             Ev_log DEBUG ''Mapped %d bytes at %s'' [Arg_int 4096, Arg_hex 0x401000]]"
    using hook_unmapped_pages_in[OF nz(1) pw(1), of ?U] rd(1) mm(1)
    unfolding al by simp
  have b: "fst (unicorn_hook_unmapped demo_small_pages 0x401434 ?U) = Inr False
      \<and> regions (snd (unicorn_hook_unmapped demo_small_pages 0x401434 ?U)) = []
      \<and> trace (snd (unicorn_hook_unmapped demo_small_pages 0x401434 ?U))
          = [Ev_uc_open UC_ARCH_X86 UC_MODE_32,
             Ev_log DEBUG ''Unmapped memory at %s'' [Arg_hex 0x401434],
             Ev_read_process_memory 0x401400 1024,
             Ev_mem_map 0x401400 1024 UC_PROT_ALL,
             Ev_log ERROR ''ERROR: %s'' [Arg_exc (UcError UC_ERR_ARG)]]"
    using hook_unmapped_pages_in[OF nz(2) pw(2), of ?U] rd(2) mm(2)
    unfolding al by simp
  have c: "fst (unicorn_hook_unmapped demo32 0x600000 ?U) = Inr False
      \<and> trace (snd (unicorn_hook_unmapped demo32 0x600000 ?U))
          = [Ev_uc_open UC_ARCH_X86 UC_MODE_32,
             Ev_log DEBUG ''Unmapped memory at %s'' [Arg_hex 0x600000],
             Ev_read_process_memory 0x600000 4096,
             Ev_log DEBUG ''ERROR: %s'' [Arg_exc ReadProcessMemoryError]]"
    using hook_unmapped_pages_in[OF nz(3) pw(1), of ?U] rd(3)
    unfolding al by simp
  show ?thesis
    using nz pw rd mm a b c by simp
qed

theorem hook_unmapped_pages_in_counterexample:
  "(0x600000 :: int) \<noteq> 0
   \<and> fst (unicorn_hook_unmapped demo32 0x600000 (Uc (2 ^ 30) UC_ARCH_X86 UC_MODE_32))
       = Inr False
   \<and> regions (snd (unicorn_hook_unmapped demo32 0x600000 (Uc (2 ^ 30) UC_ARCH_X86 UC_MODE_32)))
       = []"
proof -
  have nz: "(0x600000 :: int) \<noteq> 0" by simp
  have pw: "page_size demo32 = 2 ^ 12" by simp
  have rd: "read_process_memory demo32 (0x600000 - 0x600000 mod page_size demo32)
              (page_size demo32) = Inl ReadProcessMemoryError"
    by (simp add: demo_read_outside)
  show ?thesis
    using hook_unmapped_read_fails[OF nz pw rd, of "Uc (2 ^ 30) UC_ARCH_X86 UC_MODE_32"]
    by simp
qed

subsection \<open>Failures while the context is built\<close>




subsection \<open>Faults during emulation\<close>

text \<open>
  C8. When the run of the engine ends with the engine's exception, as it does when a fault
  is not resolved by the fault handler, \<open>resolve_wrapped_api\<close> returns \<open>None\<close> instead of
  raising, and the last entries of its trace are the logging of the error and of the
  program counter, the stack pointer and the frame pointer as they were at the fault. The
  run is given by the \<open>k\<close> steps that do not end it and the step that raises; any fuel
  above \<open>k\<close> gives the result.
\<close>

theorem fault_gives_unresolved:
  assumes p: "select_profile (architecture process_controller) = Inr p"
      and ok: "fst (build_context p process_controller
                      (Uc host_mem (prof_arch p) (prof_mode p))) = Inr ()"
      and run: "emu_run k cpu (unicorn_hook_unmapped process_controller)
                  (unicorn_hook_block (process_controller, stop_address expected_ret_addr))
                  (wrapper_start_addr + 1024) False
                  (emu_entry wrapper_start_addr (wrapper_start_addr + 1024)
                     (built_context p process_controller host_mem)) = Some (w, r)"
      and fault: "emu_step cpu (unicorn_hook_unmapped process_controller)
                  (unicorn_hook_block (process_controller, stop_address expected_ret_addr))
                  (wrapper_start_addr + 1024) r w = Finished (Inl (UcError c), w2)"
      and fuel: "k < fuel"
  shows "resolve_wrapped_api cpu host_mem fuel wrapper_start_addr process_controller
           expected_ret_addr
         = Some (Inr None,
             trace w2 @
               [Ev_log DEBUG ''ERROR: %s'' [Arg_exc (UcError c)],
                Ev_reg_read (prof_pc p), Ev_reg_read (prof_sp p), Ev_reg_read (prof_bp p),
                Ev_log DEBUG ''PC=%s'' [Arg_hex (regs w2 (prof_pc p))],
                Ev_log DEBUG ''SP=%s'' [Arg_hex (regs w2 (prof_sp p))],
                Ev_log DEBUG ''BP=%s'' [Arg_hex (regs w2 (prof_bp p))]])"
  unfolding resolve_run_finished[OF p ok run fault fuel]
  by (simp add: resolve_except_engine)

theorem fault_gives_unresolved_witness:
  "map_option fst (resolve_wrapped_api cpu_null_deref (2 ^ 30) 10 0x401000 demo32 None)
     = Some (Inr None)"
proof -
  have p: "select_profile (architecture demo32) = Inr profile_x86_32" by simp
  have ok: "fst (build_context profile_x86_32 demo32
                   (Uc (2 ^ 30) (prof_arch profile_x86_32) (prof_mode profile_x86_32))) = Inr ()"
    by (simp add: run_defs)
  have "\<exists>w w2.
     emu_run (Suc 0) cpu_null_deref (unicorn_hook_unmapped demo32)
       (unicorn_hook_block (demo32, stop_address None)) (0x401000 + 1024) False
       (emu_entry 0x401000 (0x401000 + 1024) (built_context profile_x86_32 demo32 (2 ^ 30)))
       = Some (w, False)
     \<and> emu_step cpu_null_deref (unicorn_hook_unmapped demo32)
       (unicorn_hook_block (demo32, stop_address None)) (0x401000 + 1024) False w
       = Finished (Inl (UcError UC_ERR_READ_UNMAPPED), w2)"
    by (simp add: run_defs cpu_null_deref_def)
  then obtain w w2 where
    run: "emu_run (Suc 0) cpu_null_deref (unicorn_hook_unmapped demo32)
       (unicorn_hook_block (demo32, stop_address None)) (0x401000 + 1024) False
       (emu_entry 0x401000 (0x401000 + 1024) (built_context profile_x86_32 demo32 (2 ^ 30)))
       = Some (w, False)"
    and fault: "emu_step cpu_null_deref (unicorn_hook_unmapped demo32)
       (unicorn_hook_block (demo32, stop_address None)) (0x401000 + 1024) False w
       = Finished (Inl (UcError UC_ERR_READ_UNMAPPED), w2)"
    by blast
  have fuel: "Suc 0 < 10" by simp
  show ?thesis
    using fault_gives_unresolved[OF p ok run fault fuel] by simp
qed


subsection \<open>A clean end without a stop condition\<close>

text \<open>
  C9. When the run of the engine ends cleanly, for instance because the program counter
  reached the bound 1024 bytes past the wrapper's start, \<open>resolve_wrapped_api\<close> returns the
  value of the result register at that moment, not \<open>None\<close>; the result register holds 0 when
  the run starts, so that is the value returned when nothing wrote to it.
\<close>

theorem clean_end_returns_result_register:
  assumes p: "select_profile (architecture process_controller) = Inr p"
      and ok: "fst (build_context p process_controller
                      (Uc host_mem (prof_arch p) (prof_mode p))) = Inr ()"
      and run: "emu_run k cpu (unicorn_hook_unmapped process_controller)
                  (unicorn_hook_block (process_controller, stop_address expected_ret_addr))
                  (wrapper_start_addr + 1024) False
                  (emu_entry wrapper_start_addr (wrapper_start_addr + 1024)
                     (built_context p process_controller host_mem)) = Some (w, r)"
      and fin: "emu_step cpu (unicorn_hook_unmapped process_controller)
                  (unicorn_hook_block (process_controller, stop_address expected_ret_addr))
                  (wrapper_start_addr + 1024) r w = Finished (Inr (), w2)"
      and fuel: "k < fuel"
  shows "resolve_wrapped_api cpu host_mem fuel wrapper_start_addr process_controller
           expected_ret_addr
         = Some (Inr (Some (regs w2 (prof_result p))), trace w2 @ [Ev_reg_read (prof_result p)])
     \<and> regs (emu_entry wrapper_start_addr (wrapper_start_addr + 1024)
               (built_context p process_controller host_mem)) (prof_result p) = 0"
  unfolding resolve_run_finished[OF p ok run fin fuel]
  by (simp add: entry_result_zero[OF p])

theorem clean_end_returns_result_register_witness:
  "map_option fst (resolve_wrapped_api cpu_run_off (2 ^ 30) 10 0x401000 demo32 None)
     = Some (Inr (Some 0))"
proof -
  have p: "select_profile (architecture demo32) = Inr profile_x86_32" by simp
  have ok: "fst (build_context profile_x86_32 demo32
                   (Uc (2 ^ 30) (prof_arch profile_x86_32) (prof_mode profile_x86_32))) = Inr ()"
    by (simp add: run_defs)
  have "\<exists>w w2.
     emu_run (Suc (Suc 0)) cpu_run_off (unicorn_hook_unmapped demo32)
       (unicorn_hook_block (demo32, stop_address None)) (0x401000 + 1024) False
       (emu_entry 0x401000 (0x401000 + 1024) (built_context profile_x86_32 demo32 (2 ^ 30)))
       = Some (w, False)
     \<and> emu_step cpu_run_off (unicorn_hook_unmapped demo32)
       (unicorn_hook_block (demo32, stop_address None)) (0x401000 + 1024) False w
       = Finished (Inr (), w2)
     \<and> regs w2 UC_X86_REG_EAX = 0"
    by (simp add: run_defs cpu_run_off_def)
  then obtain w w2 where
    run: "emu_run (Suc (Suc 0)) cpu_run_off (unicorn_hook_unmapped demo32)
       (unicorn_hook_block (demo32, stop_address None)) (0x401000 + 1024) False
       (emu_entry 0x401000 (0x401000 + 1024) (built_context profile_x86_32 demo32 (2 ^ 30)))
       = Some (w, False)"
    and fin: "emu_step cpu_run_off (unicorn_hook_unmapped demo32)
       (unicorn_hook_block (demo32, stop_address None)) (0x401000 + 1024) False w
       = Finished (Inr (), w2)"
    and z: "regs w2 UC_X86_REG_EAX = 0"
    by blast
  have fuel: "Suc (Suc 0) < 10" by simp
  show ?thesis
    using clean_end_returns_result_register[OF p ok run fin fuel] z by simp
qed

subsection \<open>No-return exports\<close>

text \<open>
  C5, amended. When the execution of the wrapper reaches, at a block start other than the
  bound of the emulated window, a mapped export whose name is in the no-return set, and the
  pointer-sized value at the stack pointer can be read there, the result of
  \<open>resolve_wrapped_api\<close> is that export's address, for every expected return address and for
  none. (When the stack pointer points to unmapped memory at that block, the read of the
  block hook raises the engine's error and the result is \<open>None\<close>: the counterexample.)
\<close>

theorem no_return_export_resolves:
  assumes p: "select_profile (architecture process_controller) = Inr p"
      and ok: "fst (build_context p process_controller
                      (Uc host_mem (prof_arch p) (prof_mode p))) = Inr ()"
      and run: "emu_run k cpu (unicorn_hook_unmapped process_controller)
                  (unicorn_hook_block (process_controller, stop_address expected_ret_addr))
                  (wrapper_start_addr + 1024) False
                  (emu_entry wrapper_start_addr (wrapper_start_addr + 1024)
                     (built_context p process_controller host_mem)) = Some (w, False)"
      and at: "regs w (pc_reg (mode w)) = address"
      and nb: "address \<noteq> wrapper_start_addr + 1024"
      and mp: "addr_mapped (regions w) address"
      and ex: "enumerate_exported_functions process_controller address = Some entry"
      and nr: "is_no_return_api (name entry)"
      and rd: "fst (bindE (uc_mem_read (regs w (prof_sp p)) (pointer_size process_controller))
                     (unpack_pointer (pointer_size process_controller)) w) = Inr v"
      and fuel: "k < fuel"
  shows "map_option fst (resolve_wrapped_api cpu host_mem fuel wrapper_start_addr
                           process_controller expected_ret_addr)
           = Some (Inr (Some address))"
proof -
  have st: "v = stop_address expected_ret_addr \<or> v = stop_address expected_ret_addr + 1
            \<or> v = STACK_MAGIC_RET_ADDR \<or> is_no_return_api (name entry)"
    using nr by simp
  show ?thesis
    by (rule reached_export_resolves[OF p ok run at nb mp ex rd st fuel])
qed

theorem no_return_export_resolves_witness:
  "map_option fst (resolve_wrapped_api cpu_push_exit (2 ^ 30) 10 0x401000 demo32 (Some 0x401005))
     = Some (Inr (Some 0x77e01000))"
proof -
  have p: "select_profile (architecture demo32) = Inr profile_x86_32" by simp
  have ok: "fst (build_context profile_x86_32 demo32
                   (Uc (2 ^ 30) (prof_arch profile_x86_32) (prof_mode profile_x86_32))) = Inr ()"
    by (simp add: run_defs)
  have "\<exists>w.
     emu_run (Suc (Suc (Suc 0))) cpu_push_exit (unicorn_hook_unmapped demo32)
       (unicorn_hook_block (demo32, stop_address (Some 0x401005))) (0x401000 + 1024) False
       (emu_entry 0x401000 (0x401000 + 1024) (built_context profile_x86_32 demo32 (2 ^ 30)))
       = Some (w, False)
     \<and> regs w (pc_reg (mode w)) = 0x77e01000
     \<and> addr_mapped (regions w) 0x77e01000
     \<and> fst (bindE (uc_mem_read (regs w (prof_sp profile_x86_32)) (pointer_size demo32))
              (unpack_pointer (pointer_size demo32)) w) = Inr 0x1234"
    by (simp add: run_defs cpu_push_exit_def hook_eval_defs)
  then obtain w where
    run: "emu_run (Suc (Suc (Suc 0))) cpu_push_exit (unicorn_hook_unmapped demo32)
       (unicorn_hook_block (demo32, stop_address (Some 0x401005))) (0x401000 + 1024) False
       (emu_entry 0x401000 (0x401000 + 1024) (built_context profile_x86_32 demo32 (2 ^ 30)))
       = Some (w, False)"
    and at: "regs w (pc_reg (mode w)) = 0x77e01000"
    and mp: "addr_mapped (regions w) 0x77e01000"
    and rd: "fst (bindE (uc_mem_read (regs w (prof_sp profile_x86_32)) (pointer_size demo32))
              (unpack_pointer (pointer_size demo32)) w) = Inr 0x1234"
    by blast
  have nb: "(0x77e01000::int) \<noteq> 0x401000 + 1024" by simp
  have ex: "enumerate_exported_functions demo32 0x77e01000 = Some \<lparr>name = ''ExitProcess''\<rparr>"
    by simp
  have nr: "is_no_return_api (name \<lparr>name = ''ExitProcess''\<rparr>)" by simp
  have fuel: "Suc (Suc (Suc 0)) < 10" by simp
  show ?thesis
    using no_return_export_resolves[OF p ok run at nb mp ex nr rd fuel] by simp
qed

theorem no_return_export_resolves_counterexample:
  "enumerate_exported_functions demo32 0x77e01000 = Some \<lparr>name = ''ExitProcess''\<rparr>
   \<and> is_no_return_api ''ExitProcess''
   \<and> map_option (\<lambda>(w, r). (regs w UC_X86_REG_EIP, r))
        (emu_run (Suc (Suc (Suc 0))) cpu_lost_stack (unicorn_hook_unmapped demo32)
           (unicorn_hook_block (demo32, stop_address None)) (0x401000 + 1024) False
           (emu_entry 0x401000 (0x401000 + 1024) (built_context profile_x86_32 demo32 (2 ^ 30))))
       = Some (0x77e01000, False)
   \<and> map_option fst (resolve_wrapped_api cpu_lost_stack (2 ^ 30) 10 0x401000 demo32 None)
       = Some (Inr None)"
proof -
  have p: "select_profile (architecture demo32) = Inr profile_x86_32" by simp
  have ok: "fst (build_context profile_x86_32 demo32
                   (Uc (2 ^ 30) (prof_arch profile_x86_32) (prof_mode profile_x86_32))) = Inr ()"
    by (simp add: run_defs)
  have "\<exists>w w2.
     emu_run (Suc (Suc (Suc 0))) cpu_lost_stack (unicorn_hook_unmapped demo32)
       (unicorn_hook_block (demo32, stop_address None)) (0x401000 + 1024) False
       (emu_entry 0x401000 (0x401000 + 1024) (built_context profile_x86_32 demo32 (2 ^ 30)))
       = Some (w, False)
     \<and> regs w UC_X86_REG_EIP = 0x77e01000
     \<and> emu_step cpu_lost_stack (unicorn_hook_unmapped demo32)
       (unicorn_hook_block (demo32, stop_address None)) (0x401000 + 1024) False w
       = Finished (Inl (UcError UC_ERR_READ_UNMAPPED), w2)"
    by (simp add: run_defs cpu_lost_stack_def hook_eval_defs)
  then obtain w w2 where
    run: "emu_run (Suc (Suc (Suc 0))) cpu_lost_stack (unicorn_hook_unmapped demo32)
       (unicorn_hook_block (demo32, stop_address None)) (0x401000 + 1024) False
       (emu_entry 0x401000 (0x401000 + 1024) (built_context profile_x86_32 demo32 (2 ^ 30)))
       = Some (w, False)"
    and at: "regs w UC_X86_REG_EIP = 0x77e01000"
    and fault: "emu_step cpu_lost_stack (unicorn_hook_unmapped demo32)
       (unicorn_hook_block (demo32, stop_address None)) (0x401000 + 1024) False w
       = Finished (Inl (UcError UC_ERR_READ_UNMAPPED), w2)"
    by blast
  have fuel: "Suc (Suc (Suc 0)) < 10" by simp
  have "map_option fst (resolve_wrapped_api cpu_lost_stack (2 ^ 30) 10 0x401000 demo32 None)
     = Some (Inr None)"
    unfolding resolve_run_finished[OF p ok run fault fuel]
    by (simp add: resolve_except_engine)
  then show ?thesis using run at by simp
qed

end
